theory Spec2Isabelle
  imports Complex_Main "HOL-Library.Word" "HOL-Library.AList"
begin

chapter \<open>A shallow embedding of the motion-planning core of rdk\<close>

text \<open>
  Conventions of the embedding.
  \<^item> Go's \<^verbatim>\<open>float64\<close> is modelled by \<^typ>\<open>real\<close>: rounding, infinities and NaN are not
    represented. The one exception is the interpolation fraction of
    \<^verbatim>\<open>CheckStateConstraintsAcrossSegment\<close>, a quotient that can be \<open>0 / 0\<close>: it has a type
    of its own, with NaN and the infinities.
  \<^item> Go's \<^verbatim>\<open>int\<close> is modelled by \<^typ>\<open>int\<close> where it is only compared or counts loop
    iterations; the 32-bit atomic waypoint index is a \<^typ>\<open>32 word\<close> read as two's complement.
  \<^item> A Go function returning \<^verbatim>\<open>(T, error)\<close> returns \<open>error + T\<close>, \<open>Inl\<close> being the error;
    a function returning only \<^verbatim>\<open>error\<close> returns \<open>error option\<close>.
  \<^item> A pointer or interface that may be \<^verbatim>\<open>nil\<close> is an \<open>option\<close>.
  \<^item> A function of the repository whose body is not among the sources is a parameter of
    the functions that call it, unless its definition says that it is modelled from the spec.
  \<^item> Calls to loggers and \<^verbatim>\<open>fmt.Println\<close> are left out.
\<close>

section \<open>Errors\<close>

record Limit =
  Min_limit :: real
  Max_limit :: real

text \<open>
  Go errors. \<open>New s\<close> is \<^verbatim>\<open>errors.New(s)\<close> (or \<^verbatim>\<open>fmt.Errorf\<close> with a fixed text). The
  formatted errors of the sources keep their arguments instead of the rendered text:
  \<open>ExceededMaxReplans n\<close> is \<^verbatim>\<open>fmt.Errorf("exceeded maximum number of replans: %d", n)\<close>,
  \<open>UnsupportedParamType t\<close> is
  \<^verbatim>\<open>errors.Errorf("unsupported param type: %s, supported params are SVA and DH", t)\<close>,
  \<open>ErrReservedWord k\<close> is \<^verbatim>\<open>errors.New("reserved word: cannot name a " + k + " 'world'")\<close>
  for \<open>k\<close> one of "link" and "joint",
  \<open>OOBError v l\<close> is \<^verbatim>\<open>errors.Errorf("%.5f %s %.5f", v, OOBErrString, l)\<close>, the error that
  \<^verbatim>\<open>TestPrismaticFrame\<close> and \<^verbatim>\<open>TestRevoluteFrame\<close> expect. \<open>Wrap e s\<close> is
  \<^verbatim>\<open>errors.Wrap(e, s.Error())\<close>: the error \<open>e\<close> annotated with the text of the error \<open>s\<close>.
\<close>

datatype error =
    New string
  | ErrNilPose
  | UnsupportedJointTypeError string
  | UnsupportedParamType string
  | ErrReservedWord string
  | IncorrectInputLengthError nat nat
  | OOBError real Limit
  | ExceededMaxReplans int
  | Wrap error error


text \<open>
  A call either returns or panics (a nil pointer dereference, an index out of range).
\<close>

datatype 'a outcome = Returned 'a | Panicked

section \<open>Vectors, orientations and poses\<close>

text \<open>
  \<^verbatim>\<open>r3.Vector\<close> of the library golang/geo, with the three of its methods that the model
  uses: \<^verbatim>\<open>Mul\<close>, \<^verbatim>\<open>Norm\<close> and \<^verbatim>\<open>Normalize\<close> (which maps the zero vector to itself).
\<close>

record r3_Vector =
  X :: real
  Y :: real
  Z :: real

definition r3_Mul :: "r3_Vector \<Rightarrow> real \<Rightarrow> r3_Vector" where
  "r3_Mul v m = \<lparr>X = m * X v, Y = m * Y v, Z = m * Z v\<rparr>"

definition r3_Norm2 :: "r3_Vector \<Rightarrow> real" where
  "r3_Norm2 v = X v * X v + Y v * Y v + Z v * Z v"

definition r3_Norm :: "r3_Vector \<Rightarrow> real" where
  "r3_Norm v = sqrt (r3_Norm2 v)"

definition r3_Normalize :: "r3_Vector \<Rightarrow> r3_Vector" where
  "r3_Normalize v =
     (let n2 = r3_Norm2 v in
      if n2 = 0 then \<lparr>X = 0, Y = 0, Z = 0\<rparr> else r3_Mul v (1 / sqrt n2))"

text \<open>
  Modelled from the spec: \<^verbatim>\<open>spatialmath.Pose\<close>, \<^verbatim>\<open>spatialmath.R4AA\<close> and the constructors
  \<^verbatim>\<open>NewPoseFromPoint\<close>, \<^verbatim>\<open>NewPose\<close> are missing from the sources. The spec's data model:
  "Pose: position (3D point) + orientation (unit quaternion or axis-angle representation)".
  The orientation is kept in the axis-angle form that the tests write,
  \<^verbatim>\<open>R4AA{Theta, RX, RY, RZ}\<close>; a pose made from a point alone has the rotation by angle 0.
\<close>

record R4AA =
  Theta :: real
  RX :: real
  RY :: real
  RZ :: real

record Pose =
  Point :: r3_Vector
  Orientation :: R4AA

definition NewPose :: "r3_Vector \<Rightarrow> R4AA \<Rightarrow> Pose" where
  "NewPose pt orient = \<lparr>Point = pt, Orientation = orient\<rparr>"

definition NewPoseFromPoint :: "r3_Vector \<Rightarrow> Pose" where
  "NewPoseFromPoint pt = \<lparr>Point = pt, Orientation = \<lparr>Theta = 0, RX = 0, RY = 0, RZ = 1\<rparr>\<rparr>"

text \<open>
  Modelled from the spec: the comparisons of \<^verbatim>\<open>spatialmath\<close> are missing from the sources.
  The spec compares points "within floating tolerance"; \<^verbatim>\<open>frame_system_test.go\<close> (line 185)
  compares two points with \<^verbatim>\<open>R3VectorAlmostEqual(a, b, 1e-8)\<close>. Two points are almost equal
  when each of their coordinates differs by less than the tolerance, and the floating
  tolerance is that \<open>10\<^sup>-\<^sup>8\<close>.
\<close>

definition R3VectorAlmostEqual :: "r3_Vector \<Rightarrow> r3_Vector \<Rightarrow> real \<Rightarrow> bool" where
  "R3VectorAlmostEqual a b epsilon =
     (\<bar>X a - X b\<bar> < epsilon \<and> \<bar>Y a - Y b\<bar> < epsilon \<and> \<bar>Z a - Z b\<bar> < epsilon)"

definition floatingTolerance :: real where
  "floatingTolerance = 1 / 10 ^ 8"

section \<open>referenceframe: inputs and single frames\<close>

record Input =
  Value :: real

text \<open>
  \<^verbatim>\<open>baseFrame{name, limits}\<close> and the two single-DOF frames that embed it, as
  \<^verbatim>\<open>TestRevoluteFrame\<close> writes them:
  \<^verbatim>\<open>&rotationalFrame{&baseFrame{"test", []Limit{{-math.Pi / 2, math.Pi / 2}}}, axis}\<close>.
\<close>

record baseFrame =
  name :: string
  limits :: "Limit list"

record translationalFrame = baseFrame +
  transAxis :: r3_Vector

record rotationalFrame = baseFrame +
  rotAxis :: r3_Vector

text \<open>
  Modelled from the spec: \<^verbatim>\<open>baseFrame.validInputs\<close>, the check of an input against the
  limits, is missing from the sources (frame.go is not among them). The spec: an input
  "must have a length exactly matching len(DOF())"; a "configuration outside a DOF's
  {min,max}" is "reported as an out-of-bounds error identifying the offending limit";
  "feeding a boundary value exactly at min/max succeeds". The content of the out-of-bounds
  error is the one \<^verbatim>\<open>TestPrismaticFrame\<close> (lines 64-68) and \<^verbatim>\<open>TestRevoluteFrame\<close>
  (lines 100-104) require with \<^verbatim>\<open>test.ShouldBeError\<close>: the value, \<^verbatim>\<open>OOBErrString\<close> and the
  limit, \<^verbatim>\<open>errors.Errorf("%.5f %s %.5f", overLimit, OOBErrString, frame.DoF()[0])\<close>.
\<close>

fun checkLimits :: "Input list \<Rightarrow> Limit list \<Rightarrow> error option" where
  "checkLimits (i # inputs) (l # lims) =
     (if Value i < Min_limit l \<or> Value i > Max_limit l then Some (OOBError (Value i) l)
      else checkLimits inputs lims)"
| "checkLimits _ _ = None"

definition validInputs :: "'a baseFrame_scheme \<Rightarrow> Input list \<Rightarrow> error option" where
  "validInputs bf inputs =
     (if length inputs \<noteq> length (limits bf)
      then Some (IncorrectInputLengthError (length inputs) (length (limits bf)))
      else checkLimits inputs (limits bf))"

text \<open>
  Modelled from the spec: \<^verbatim>\<open>NewTranslationalFrame\<close> and \<^verbatim>\<open>translationalFrame.Transform\<close>
  are missing from the sources. The spec: "translational/prismatic (1 DOF along an axis)";
  "transform scales the unit axis by the scalar input"; "feeding an input whose length
  \<noteq> 1 errors". The constructor therefore stores the unit vector of the given axis and the
  one limit. When the constructor of the repository fails is not described by the spec; the
  model is the successful construction, as in \<^verbatim>\<open>TestPrismaticFrame\<close>.
\<close>

definition NewTranslationalFrame :: "string \<Rightarrow> r3_Vector \<Rightarrow> Limit \<Rightarrow> translationalFrame" where
  "NewTranslationalFrame n axis limit =
     \<lparr>name = n, limits = [limit], transAxis = r3_Normalize axis\<rparr>"

definition translationalFrame_Transform :: "translationalFrame \<Rightarrow> Input list \<Rightarrow> error + Pose" where
  "translationalFrame_Transform pf input =
     (case validInputs pf input of
        Some err \<Rightarrow> Inl err
      | None \<Rightarrow>
          (case input of
             [] \<Rightarrow> Inl (IncorrectInputLengthError 0 1)
           | i # _ \<Rightarrow> Inr (NewPoseFromPoint (r3_Mul (transAxis pf) (Value i)))))"

text \<open>
  Modelled from the spec: \<^verbatim>\<open>rotationalFrame.Transform\<close> is missing from the sources. The
  spec: "rotational/revolute (1 DOF about an axis)". As in \<^verbatim>\<open>TestRevoluteFrame\<close>, the pose
  is the rotation by the input angle (in radians) about the frame's axis, at the origin.
\<close>

definition rotationalFrame_Transform :: "rotationalFrame \<Rightarrow> Input list \<Rightarrow> error + Pose" where
  "rotationalFrame_Transform rf input =
     (case validInputs rf input of
        Some err \<Rightarrow> Inl err
      | None \<Rightarrow>
          (case input of
             [] \<Rightarrow> Inl (IncorrectInputLengthError 0 1)
           | i # _ \<Rightarrow>
               Inr (NewPose \<lparr>X = 0, Y = 0, Z = 0\<rparr>
                      \<lparr>Theta = Value i, RX = X (rotAxis rf), RY = Y (rotAxis rf), RZ = Z (rotAxis rf)\<rparr>)))"

text \<open>
  The interface \<^verbatim>\<open>referenceframe.Frame\<close>, as far as the sources call it: its name, its
  transform and its limits. Any implementation of the interface is a value of this record.
\<close>

record Frame =
  Frame_Name :: string
  Frame_Transform :: "Input list \<Rightarrow> error + Pose"
  Frame_DoF :: "Limit list"

definition translationalFrame_Frame :: "translationalFrame \<Rightarrow> Frame" where
  "translationalFrame_Frame pf =
     \<lparr>Frame_Name = name pf, Frame_Transform = translationalFrame_Transform pf, Frame_DoF = limits pf\<rparr>"

definition rotationalFrame_Frame :: "rotationalFrame \<Rightarrow> Frame" where
  "rotationalFrame_Frame rf =
     \<lparr>Frame_Name = name rf, Frame_Transform = rotationalFrame_Transform rf, Frame_DoF = limits rf\<rparr>"

section \<open>referenceframe: FrameConfig, LinkConfig, JointConfig, DHParamConfig\<close>

text \<open>The joint types that the package declares as constants.\<close>

definition FixedJoint :: string where
  "FixedJoint = ''fixed''"

definition ContinuousJoint :: string where
  "ContinuousJoint = ''continuous''"

definition PrismaticJoint :: string where
  "PrismaticJoint = ''prismatic''"

definition RevoluteJoint :: string where
  "RevoluteJoint = ''revolute''"

text \<open>
  The configuration records. \<open>'oc\<close> is \<^verbatim>\<open>spatialmath.OrientationConfig\<close> and \<open>'gc\<close> is
  \<^verbatim>\<open>spatialmath.GeometryConfig\<close>, both missing from the sources and never inspected here;
  \<^verbatim>\<open>spatialmath.AxisConfig\<close> converts to \<^verbatim>\<open>r3.Vector\<close> and is modelled by it.
\<close>

record 'oc LinkConfig =
  Link_ID :: string
  Link_Translation :: r3_Vector
  Link_Orientation :: "'oc option"
  Link_Parent :: string

record ('oc, 'gc) FrameConfig =
  Link :: "'oc LinkConfig option"
  Geometries :: "'gc option list"

record 'gc JointConfig =
  Joint_ID :: string
  Joint_Type :: string
  Joint_Parent :: string
  Joint_Axis :: r3_Vector
  Joint_Max :: real
  Joint_Min :: real
  Joint_Geometry :: "'gc option"

record 'gc DHParamConfig =
  DH_ID :: string
  DH_Parent :: string
  DH_A :: real
  DH_D :: real
  DH_Alpha :: real
  DH_Max :: real
  DH_Min :: real
  DH_Geometry :: "'gc option"

text \<open>
  A parsed geometry with its label (\<^verbatim>\<open>Label()\<close>, \<^verbatim>\<open>SetLabel\<close>), and the result of
  \<^verbatim>\<open>NewLinkInFrame(parent, pose, name, geometries)\<close>, which is missing from the sources: the
  model keeps its four arguments.
\<close>

record 'g Geometry =
  Label :: string
  shape :: 'g

record 'g LinkInFrame =
  LinkInFrame_parent :: string
  LinkInFrame_pose :: Pose
  LinkInFrame_name :: string
  LinkInFrame_geometries :: "'g Geometry list"

definition NewLinkInFrame :: "string \<Rightarrow> Pose \<Rightarrow> string \<Rightarrow> 'g Geometry list \<Rightarrow> 'g LinkInFrame" where
  "NewLinkInFrame parent pose n geometries =
     \<lparr>LinkInFrame_parent = parent, LinkInFrame_pose = pose, LinkInFrame_name = n,
      LinkInFrame_geometries = geometries\<rparr>"

text \<open>
  \<^verbatim>\<open>FrameConfig.Pose\<close> (part_002, lines 100-114), branch by branch. The parameter is
  \<^verbatim>\<open>OrientationConfig.ParseConfig\<close>. The source tests \<^verbatim>\<open>link != nil\<close> and returns
  \<^verbatim>\<open>ErrNilPose\<close> in that case; when the link is nil the next statement reads
  \<^verbatim>\<open>link.Translation\<close> through the nil pointer.
\<close>

definition FrameConfig_Pose ::
  "('oc \<Rightarrow> error + R4AA) \<Rightarrow> ('oc, 'gc) FrameConfig \<Rightarrow> (error + Pose) outcome" where
  "FrameConfig_Pose OrientationConfig_ParseConfig cfg =
     (let link = Link cfg in
      if link \<noteq> None then Returned (Inl ErrNilPose)
      else
        (case link of
           None \<Rightarrow> Panicked
         | Some l \<Rightarrow>
             (let pt = Link_Translation l in
              case Link_Orientation l of
                Some oc \<Rightarrow>
                  (case OrientationConfig_ParseConfig oc of
                     Inl err \<Rightarrow> Returned (Inl err)
                   | Inr orient \<Rightarrow> Returned (Inr (NewPose pt orient)))
              | None \<Rightarrow> Returned (Inr (NewPoseFromPoint pt)))))"

text \<open>
  The loop over \<^verbatim>\<open>cfg.Geometries\<close> of \<^verbatim>\<open>FrameConfig.ParseConfig\<close> (lines 84-95); the first
  parameter is \<^verbatim>\<open>GeometryConfig.ParseConfig\<close>. \<^verbatim>\<open>cfg.Link.ID\<close> is read through the link pointer.
\<close>

fun parseGeometries ::
  "('gc option \<Rightarrow> error + 'g Geometry) \<Rightarrow> 'oc LinkConfig option \<Rightarrow> 'gc option list \<Rightarrow>
   'g Geometry list \<Rightarrow> (error + 'g Geometry list) outcome" where
  "parseGeometries GeometryConfig_ParseConfig link [] geometries = Returned (Inr geometries)"
| "parseGeometries GeometryConfig_ParseConfig link (cfgGeometry # rest) geometries =
     (case GeometryConfig_ParseConfig cfgGeometry of
        Inl err \<Rightarrow> Returned (Inl err)
      | Inr geo \<Rightarrow>
          if Label geo = []
          then (case link of
                  None \<Rightarrow> Panicked
                | Some l \<Rightarrow>
                    parseGeometries GeometryConfig_ParseConfig link rest
                      (geometries @ [geo\<lparr>Label := Link_ID l\<rparr>]))
          else parseGeometries GeometryConfig_ParseConfig link rest (geometries @ [geo]))"

text \<open>\<^verbatim>\<open>FrameConfig.ParseConfig\<close> (part_002, lines 78-97).\<close>

definition FrameConfig_ParseConfig ::
  "('oc \<Rightarrow> error + R4AA) \<Rightarrow> ('gc option \<Rightarrow> error + 'g Geometry) \<Rightarrow> ('oc, 'gc) FrameConfig \<Rightarrow>
   (error + 'g LinkInFrame) outcome" where
  "FrameConfig_ParseConfig OrientationConfig_ParseConfig GeometryConfig_ParseConfig cfg =
     (case FrameConfig_Pose OrientationConfig_ParseConfig cfg of
        Panicked \<Rightarrow> Panicked
      | Returned (Inl err) \<Rightarrow> Returned (Inl err)
      | Returned (Inr pose) \<Rightarrow>
          (case parseGeometries GeometryConfig_ParseConfig (Link cfg) (Geometries cfg) [] of
             Panicked \<Rightarrow> Panicked
           | Returned (Inl err) \<Rightarrow> Returned (Inl err)
           | Returned (Inr geometries) \<Rightarrow>
               (case Link cfg of
                  None \<Rightarrow> Panicked
                | Some l \<Rightarrow>
                    Returned (Inr (NewLinkInFrame (Link_Parent l) pose (Link_ID l) geometries)))))"

text \<open>
  What the configuration describes: the pose made of the link's translation and, when it
  has one, its parsed orientation. This is the pose that \<^verbatim>\<open>FrameConfig.Pose\<close> computes after
  its nil test, written for a link that is present.
\<close>

definition linkPose :: "('oc \<Rightarrow> error + R4AA) \<Rightarrow> 'oc LinkConfig \<Rightarrow> error + Pose" where
  "linkPose OrientationConfig_ParseConfig l =
     (case Link_Orientation l of
        Some oc \<Rightarrow>
          (case OrientationConfig_ParseConfig oc of
             Inl err \<Rightarrow> Inl err
           | Inr orient \<Rightarrow> Inr (NewPose (Link_Translation l) orient))
      | None \<Rightarrow> Inr (NewPoseFromPoint (Link_Translation l)))"

section \<open>referenceframe: parsing a kinematic chain (ModelConfig.ParseConfig)\<close>

text \<open>
  The functions of the package that \<^verbatim>\<open>JointConfig.ToFrame\<close> and \<^verbatim>\<open>ModelConfig.ParseConfig\<close>
  call and that are missing from the sources, as parameters: the frame constructors (when
  they fail is decided in the missing frame.go), \<^verbatim>\<open>AxisConfig.ParseConfig\<close>,
  \<^verbatim>\<open>LinkConfig.ToStaticFrame\<close>, \<^verbatim>\<open>GeometryConfig.ParseConfig\<close>, \<^verbatim>\<open>NewPoseFromDH\<close> and
  \<^verbatim>\<open>sortTransforms\<close>.
\<close>

record ('oc, 'gc, 'g) frameDeps =
  newRotationalFrame :: "string \<Rightarrow> R4AA \<Rightarrow> Limit \<Rightarrow> error + Frame"
  newTranslationalFrame :: "string \<Rightarrow> r3_Vector \<Rightarrow> Limit \<Rightarrow> error + Frame"
  newStaticFrame :: "string \<Rightarrow> Pose \<Rightarrow> error + Frame"
  newStaticFrameWithGeometry :: "string \<Rightarrow> Pose \<Rightarrow> 'g \<Rightarrow> error + Frame"
  axisParseConfig :: "r3_Vector \<Rightarrow> R4AA"
  linkToStaticFrame :: "'oc LinkConfig \<Rightarrow> string \<Rightarrow> error + Frame"
  geometryParseConfig :: "'gc option \<Rightarrow> error + 'g"
  newPoseFromDH :: "real \<Rightarrow> real \<Rightarrow> real \<Rightarrow> Pose"
  sortTransforms ::
    "(string \<times> Frame) list \<Rightarrow> (string \<times> string) list \<Rightarrow> string \<Rightarrow> string \<Rightarrow> error + Frame list"

text \<open>
  \<^verbatim>\<open>utils.DegToRad\<close> is missing from the sources; the comments of \<^verbatim>\<open>JointConfig\<close> give
  \<^verbatim>\<open>Min\<close> and \<^verbatim>\<open>Max\<close> "in mm or degs", and the function is the conversion of degrees to
  radians.
\<close>

definition DegToRad :: "real \<Rightarrow> real" where
  "DegToRad d = d * pi / 180"

text \<open>\<^verbatim>\<open>JointConfig.ToFrame\<close> (part_002, lines 117-128).\<close>

definition JointConfig_ToFrame :: "('oc, 'gc, 'g) frameDeps \<Rightarrow> 'gc JointConfig \<Rightarrow> error + Frame" where
  "JointConfig_ToFrame D cfg =
     (if Joint_Type cfg = RevoluteJoint then
        newRotationalFrame D (Joint_ID cfg) (axisParseConfig D (Joint_Axis cfg))
          \<lparr>Min_limit = DegToRad (Joint_Min cfg), Max_limit = DegToRad (Joint_Max cfg)\<rparr>
      else if Joint_Type cfg = PrismaticJoint then
        newTranslationalFrame D (Joint_ID cfg) (Joint_Axis cfg)
          \<lparr>Min_limit = Joint_Min cfg, Max_limit = Joint_Max cfg\<rparr>
      else Inl (UnsupportedJointTypeError (Joint_Type cfg)))"

record ('oc, 'gc) ModelConfig =
  Name :: string
  KinParamType :: string
  Links :: "'oc LinkConfig list"
  Joints :: "'gc JointConfig list"
  DHParams :: "'gc DHParamConfig list"

text \<open>
  The model that \<^verbatim>\<open>ParseConfig\<close> returns: \<^verbatim>\<open>NewSimpleModel(modelName)\<close> with its
  \<^verbatim>\<open>modelConfig\<close> and \<^verbatim>\<open>OrdTransforms\<close> set.
\<close>

record ('oc, 'gc) SimpleModel =
  model_name :: string
  modelConfig :: "('oc, 'gc) ModelConfig"
  OrdTransforms :: "Frame list"

definition World :: string where
  "World = ''world''"

text \<open>
  The two Go maps of \<^verbatim>\<open>ParseConfig\<close>, \<^verbatim>\<open>transforms\<close> and \<^verbatim>\<open>parentMap\<close>, are association
  lists with distinct keys: \<open>AList.update\<close> is the assignment \<^verbatim>\<open>m[k] = v\<close>, \<open>AList.delete\<close>
  is \<^verbatim>\<open>delete(m, k)\<close>, the length is \<^verbatim>\<open>len(m)\<close>. Reading a missing key of \<^verbatim>\<open>parentMap\<close>
  gives the empty string.
\<close>

type_synonym transforms = "(string \<times> Frame) list"

type_synonym parentMap = "(string \<times> string) list"

definition parentOf :: "parentMap \<Rightarrow> string \<Rightarrow> string" where
  "parentOf parentMap k = (case map_of parentMap k of Some p \<Rightarrow> p | None \<Rightarrow> [])"

text \<open>The loop over \<^verbatim>\<open>cfg.Links\<close> (lines 294-300 of the second file of frame_test.go).\<close>

fun addLinks ::
  "('oc, 'gc, 'g) frameDeps \<Rightarrow> 'oc LinkConfig list \<Rightarrow> transforms \<times> parentMap \<Rightarrow>
   error + transforms \<times> parentMap" where
  "addLinks D [] tp = Inr tp"
| "addLinks D (link # rest) (transforms, parentMap) =
     (let parentMap' = AList.update (Link_ID link) (Link_Parent link) parentMap in
      case linkToStaticFrame D link (Link_ID link) of
        Inl err \<Rightarrow> Inl err
      | Inr fr \<Rightarrow> addLinks D rest (AList.update (Link_ID link) fr transforms, parentMap'))"

text \<open>The loop over \<^verbatim>\<open>cfg.Joints\<close> (lines 303-310).\<close>

fun addJoints ::
  "('oc, 'gc, 'g) frameDeps \<Rightarrow> 'gc JointConfig list \<Rightarrow> transforms \<times> parentMap \<Rightarrow>
   error + transforms \<times> parentMap" where
  "addJoints D [] tp = Inr tp"
| "addJoints D (joint # rest) (transforms, parentMap) =
     (let parentMap' = AList.update (Joint_ID joint) (Joint_Parent joint) parentMap in
      case JointConfig_ToFrame D joint of
        Inl err \<Rightarrow> Inl err
      | Inr fr \<Rightarrow> addJoints D rest (AList.update (Joint_ID joint) fr transforms, parentMap'))"

text \<open>The loop over \<^verbatim>\<open>cfg.DHParams\<close> (lines 313-336).\<close>

fun addDHParams ::
  "('oc, 'gc, 'g) frameDeps \<Rightarrow> 'gc DHParamConfig list \<Rightarrow> transforms \<times> parentMap \<Rightarrow>
   error + transforms \<times> parentMap" where
  "addDHParams D [] tp = Inr tp"
| "addDHParams D (dh # rest) (transforms, parentMap) =
     (let jointID = DH_ID dh @ ''_j'';
          parentMap1 = AList.update jointID (DH_Parent dh) parentMap in
      case newRotationalFrame D jointID \<lparr>Theta = 0, RX = 0, RY = 0, RZ = 1\<rparr>
             \<lparr>Min_limit = DegToRad (DH_Min dh), Max_limit = DegToRad (DH_Max dh)\<rparr> of
        Inl err \<Rightarrow> Inl err
      | Inr jf \<Rightarrow>
          (let transforms1 = AList.update jointID jf transforms;
               linkID = DH_ID dh;
               pose = newPoseFromDH D (DH_A dh) (DH_D dh) (DegToRad (DH_Alpha dh));
               parentMap2 = AList.update linkID jointID parentMap1 in
           case (case geometryParseConfig D (DH_Geometry dh) of
                   Inr geometryCreator \<Rightarrow> newStaticFrameWithGeometry D (DH_ID dh) pose geometryCreator
                 | Inl _ \<Rightarrow> newStaticFrame D (DH_ID dh) pose) of
             Inl err \<Rightarrow> Inl err
           | Inr lf \<Rightarrow> addDHParams D rest (AList.update (DH_ID dh) lf transforms1, parentMap2)))"

text \<open>
  Lines 342-351: \<^verbatim>\<open>parents\<close> starts as a copy of \<^verbatim>\<open>transforms\<close>; for every frame of
  \<^verbatim>\<open>transforms\<close> the entry of its parent, \<^verbatim>\<open>parentMap[trans.Name()]\<close>, is deleted.
\<close>

definition removeParents :: "transforms \<Rightarrow> parentMap \<Rightarrow> transforms" where
  "removeParents transforms parentMap =
     fold (\<lambda>(id, trans) parents. AList.delete (parentOf parentMap (Frame_Name trans)) parents)
       transforms transforms"

text \<open>
  The frames with no children, as the spec words it: the identifiers of \<^verbatim>\<open>transforms\<close>
  that are not the parent of any frame of \<^verbatim>\<open>transforms\<close>.
\<close>

definition endEffectors :: "transforms \<Rightarrow> parentMap \<Rightarrow> string set" where
  "endEffectors transforms parentMap =
     {id \<in> fst ` set transforms.
        \<not> (\<exists>trans \<in> snd ` set transforms. parentOf parentMap (Frame_Name trans) = id)}"

text \<open>
  The switch on \<^verbatim>\<open>cfg.KinParamType\<close> (lines 281-340), which fills the two maps.
\<close>

definition buildTransforms ::
  "('oc, 'gc, 'g) frameDeps \<Rightarrow> ('oc, 'gc) ModelConfig \<Rightarrow> error + transforms \<times> parentMap" where
  "buildTransforms D cfg =
     (if KinParamType cfg = ''SVA'' \<or> KinParamType cfg = [] then
        if list_ex (\<lambda>link. Link_ID link = World) (Links cfg)
        then Inl (ErrReservedWord ''link'')
        else if list_ex (\<lambda>joint. Joint_ID joint = World) (Joints cfg)
        then Inl (ErrReservedWord ''joint'')
        else
          (case addLinks D (Links cfg) ([], []) of
             Inl err \<Rightarrow> Inl err
           | Inr tp \<Rightarrow> addJoints D (Joints cfg) tp)
      else if KinParamType cfg = ''DH'' then addDHParams D (DHParams cfg) ([], [])
      else Inl (UnsupportedParamType (KinParamType cfg)))"

text \<open>\<^verbatim>\<open>ModelConfig.ParseConfig\<close> (lines 268-375 of the second file of frame_test.go).\<close>

definition ModelConfig_ParseConfig ::
  "('oc, 'gc, 'g) frameDeps \<Rightarrow> ('oc, 'gc) ModelConfig \<Rightarrow> string \<Rightarrow> error + ('oc, 'gc) SimpleModel" where
  "ModelConfig_ParseConfig D cfg modelName0 =
     (let modelName = (if modelName0 = [] then Name cfg else modelName0);
          model = \<lparr>model_name = modelName, modelConfig = cfg, OrdTransforms = []\<rparr>
      in
      case buildTransforms D cfg of
        Inl err \<Rightarrow> Inl err
      | Inr (transforms, parentMap) \<Rightarrow>
          (let parents = removeParents transforms parentMap in
           if length parents > 1 then Inl (New ''more than one end effector not supported'')
           else if length parents < 1 then Inl (New ''need at least one end effector'')
           else
             (let eename = fold (\<lambda>(id, _) _. id) parents [] in
              case sortTransforms D transforms parentMap eename World of
                Inl err \<Rightarrow> Inl err
              | Inr orderedTransforms \<Rightarrow> Inr (model\<lparr>OrdTransforms := orderedTransforms\<rparr>))))"

section \<open>motionplan: constraints over states and segments (part_005)\<close>

text \<open>
  \<^verbatim>\<open>SegmentInput\<close> and \<^verbatim>\<open>StateInput\<close>. A pose, a configuration (a slice) and the frame (an
  interface) may each be nil.
\<close>

record SegmentInput =
  StartPosition :: "Pose option"
  EndPosition :: "Pose option"
  StartConfiguration :: "Input list option"
  EndConfiguration :: "Input list option"
  Segment_Frame :: "Frame option"

record StateInput =
  Position :: "Pose option"
  Configuration :: "Input list option"
  State_Frame :: "Frame option"

text \<open>
  \<^verbatim>\<open>SegmentInput.resolveInputsToPositions\<close> (lines 25-59). The Go method fills the pose
  fields of its receiver in place and returns an error; the model returns the error or the
  updated input.
\<close>

definition SegmentInput_resolveInputsToPositions :: "SegmentInput \<Rightarrow> error + SegmentInput" where
  "SegmentInput_resolveInputsToPositions ci =
     (case
        (if StartPosition ci = None then
           (case Segment_Frame ci of
              Some frame \<Rightarrow>
                (case StartConfiguration ci of
                   Some conf \<Rightarrow>
                     (case Frame_Transform frame conf of
                        Inr pos \<Rightarrow> Inr (ci\<lparr>StartPosition := Some pos\<rparr>)
                      | Inl err \<Rightarrow> Inl err)
                 | None \<Rightarrow> Inl (New ''invalid constraint input''))
            | None \<Rightarrow> Inl (New ''invalid constraint input''))
         else Inr ci) of
        Inl err \<Rightarrow> Inl err
      | Inr ci1 \<Rightarrow>
          if EndPosition ci1 = None then
            (case Segment_Frame ci1 of
               Some frame \<Rightarrow>
                 (case EndConfiguration ci1 of
                    Some conf \<Rightarrow>
                      (case Frame_Transform frame conf of
                         Inr pos \<Rightarrow> Inr (ci1\<lparr>EndPosition := Some pos\<rparr>)
                       | Inl err \<Rightarrow> Inl err)
                  | None \<Rightarrow> Inl (New ''invalid constraint input''))
             | None \<Rightarrow> Inl (New ''invalid constraint input''))
          else Inr ci1)"

text \<open>\<^verbatim>\<open>StateInput.resolveInputsToPositions\<close> (lines 71-89).\<close>

definition StateInput_resolveInputsToPositions :: "StateInput \<Rightarrow> error + StateInput" where
  "StateInput_resolveInputsToPositions ci =
     (if Position ci = None then
        (case State_Frame ci of
           Some frame \<Rightarrow>
             (case Configuration ci of
                Some conf \<Rightarrow>
                  (case Frame_Transform frame conf of
                     Inr pos \<Rightarrow> Inr (ci\<lparr>Position := Some pos\<rparr>)
                   | Inl err \<Rightarrow> Inl err)
              | None \<Rightarrow> Inl (New ''invalid constraint input''))
         | None \<Rightarrow> Inl (New ''invalid constraint input''))
      else Inr ci)"

text \<open>
  The constraints are predicates (the spec: "a pure predicate over either a single state
  or a transition between two states"). The two registries are Go maps from names to
  constraints; a registry is the list of its entries in the order in which one \<^verbatim>\<open>range\<close>
  loop visits them.
\<close>

type_synonym SegmentConstraint = "SegmentInput \<Rightarrow> bool"

type_synonym StateConstraint = "StateInput \<Rightarrow> bool"

record ConstraintHandler =
  segmentConstraints :: "(string \<times> SegmentConstraint) list"
  stateConstraints :: "(string \<times> StateConstraint) list"

text \<open>The loop of \<^verbatim>\<open>CheckStateConstraints\<close> (lines 110-118).\<close>

fun rangeStateConstraints :: "(string \<times> StateConstraint) list \<Rightarrow> StateInput \<Rightarrow> bool \<times> string" where
  "rangeStateConstraints [] cInput = (True, [])"
| "rangeStateConstraints ((n, cFunc) # rest) cInput =
     (let pass = cFunc cInput in
      if \<not> pass then (False, n) else rangeStateConstraints rest cInput)"

definition CheckStateConstraints :: "ConstraintHandler \<Rightarrow> StateInput \<Rightarrow> bool \<times> string" where
  "CheckStateConstraints c cInput = rangeStateConstraints (stateConstraints c) cInput"

text \<open>The loop of \<^verbatim>\<open>CheckSegmentConstraints\<close> (lines 124-132).\<close>

fun rangeSegmentConstraints ::
  "(string \<times> SegmentConstraint) list \<Rightarrow> SegmentInput \<Rightarrow> bool \<times> string" where
  "rangeSegmentConstraints [] cInput = (True, [])"
| "rangeSegmentConstraints ((n, cFunc) # rest) cInput =
     (let pass = cFunc cInput in
      if \<not> pass then (False, n) else rangeSegmentConstraints rest cInput)"

definition CheckSegmentConstraints :: "ConstraintHandler \<Rightarrow> SegmentInput \<Rightarrow> bool \<times> string" where
  "CheckSegmentConstraints c cInput = rangeSegmentConstraints (segmentConstraints c) cInput"

text \<open>
  The fraction \<^verbatim>\<open>float64(i) / float64(steps)\<close> of line 149. Here, and only here, the model
  keeps the values of a \<^verbatim>\<open>float64\<close> that are not numbers: the quotient of two integers is a
  number when the divisor is not 0, NaN for \<open>0 / 0\<close> and an infinity for any other division
  by 0. In the loop \<open>i\<close> runs from 0 to \<open>steps\<close>, so that the one fraction that is not a
  number is the NaN of step 0 of a segment with 0 steps.
\<close>

datatype float64 = Finite real | PosInf | NegInf | NaN

definition float64_quotient :: "int \<Rightarrow> int \<Rightarrow> float64" where
  "float64_quotient i steps =
     (if steps \<noteq> 0 then Finite (real_of_int i / real_of_int steps)
      else if i = 0 then NaN
      else if 0 < i then PosInf else NegInf)"

text \<open>
  The state that the loop of \<^verbatim>\<open>CheckStateConstraintsAcrossSegment\<close> builds at step \<open>i\<close> of
  \<open>steps\<close> (lines 149-151): the frame of the segment and the configuration that
  \<^verbatim>\<open>referenceframe.InterpolateInputs\<close> returns for the fraction \<^verbatim>\<open>float64(i) / float64(steps)\<close>.
  \<^verbatim>\<open>InterpolateInputs\<close> is missing from the sources and is a parameter.
\<close>

definition interpolatedState ::
  "(Input list option \<Rightarrow> Input list option \<Rightarrow> float64 \<Rightarrow> Input list option) \<Rightarrow>
   SegmentInput \<Rightarrow> int \<Rightarrow> int \<Rightarrow> StateInput" where
  "interpolatedState InterpolateInputs ci steps i =
     (let interp = float64_quotient i steps;
          interpConfig = InterpolateInputs (StartConfiguration ci) (EndConfiguration ci) interp
      in \<lparr>Position = None, Configuration = interpConfig, State_Frame = Segment_Frame ci\<rparr>)"

text \<open>
  The loop of \<^verbatim>\<open>CheckStateConstraintsAcrossSegment\<close> (lines 148-167), from step \<open>i\<close> on.
  \<open>lastGood\<close> is the configuration of the previous step, nil before the first.
\<close>

function acrossSegmentLoop ::
  "(Input list option \<Rightarrow> Input list option \<Rightarrow> float64 \<Rightarrow> Input list option) \<Rightarrow>
   ConstraintHandler \<Rightarrow> SegmentInput \<Rightarrow> int \<Rightarrow> int \<Rightarrow> Input list option \<Rightarrow>
   bool \<times> SegmentInput option" where
  "acrossSegmentLoop InterpolateInputs c ci steps i lastGood =
     (if i \<le> steps then
        (case StateInput_resolveInputsToPositions (interpolatedState InterpolateInputs ci steps i) of
           Inl err \<Rightarrow> (False, None)
         | Inr interpC \<Rightarrow>
             if \<not> fst (CheckStateConstraints c interpC) then
               (if i = 0 then (False, None)
                else (False, Some \<lparr>StartPosition = None, EndPosition = None,
                                   StartConfiguration = StartConfiguration ci,
                                   EndConfiguration = lastGood, Segment_Frame = None\<rparr>))
             else acrossSegmentLoop InterpolateInputs c ci steps (i + 1) (Configuration interpC))
      else (True, None))"
  by pat_completeness auto
termination
  by (relation "measure (\<lambda>(InterpolateInputs, c, ci, steps, i, lastGood). nat (steps + 1 - i))") auto

declare acrossSegmentLoop.simps [simp del]

text \<open>
  \<^verbatim>\<open>CheckStateConstraintsAcrossSegment\<close> (lines 138-168). \<^verbatim>\<open>PathStepCount\<close> is missing from
  the sources and is a parameter here (a model of it from the spec follows at the end of
  this section). After a successful resolution both poses are set (lemma
  \<open>resolveSegment_poses\<close>), so the last branch of the pattern match is never taken.
\<close>

definition CheckStateConstraintsAcrossSegment ::
  "(Pose \<Rightarrow> Pose \<Rightarrow> real \<Rightarrow> int) \<Rightarrow>
   (Input list option \<Rightarrow> Input list option \<Rightarrow> float64 \<Rightarrow> Input list option) \<Rightarrow>
   ConstraintHandler \<Rightarrow> SegmentInput \<Rightarrow> real \<Rightarrow> bool \<times> SegmentInput option" where
  "CheckStateConstraintsAcrossSegment PathStepCount InterpolateInputs c ci resolution =
     (case SegmentInput_resolveInputsToPositions ci of
        Inl err \<Rightarrow> (False, None)
      | Inr ci' \<Rightarrow>
          (case (StartPosition ci', EndPosition ci') of
             (Some startPos, Some endPos) \<Rightarrow>
               (let steps = PathStepCount startPos endPos resolution in
                acrossSegmentLoop InterpolateInputs c ci' steps 0 None)
           | _ \<Rightarrow> (False, None)))"

text \<open>\<^verbatim>\<open>CheckSegmentAndStateValidity\<close> (lines 173-189).\<close>

definition CheckSegmentAndStateValidity ::
  "(Pose \<Rightarrow> Pose \<Rightarrow> real \<Rightarrow> int) \<Rightarrow>
   (Input list option \<Rightarrow> Input list option \<Rightarrow> float64 \<Rightarrow> Input list option) \<Rightarrow>
   ConstraintHandler \<Rightarrow> SegmentInput \<Rightarrow> real \<Rightarrow> bool \<times> SegmentInput option" where
  "CheckSegmentAndStateValidity PathStepCount InterpolateInputs c cInput resolution =
     (let valid = fst (CheckSegmentConstraints c cInput) in
      if \<not> valid then (False, None)
      else
        (let (valid, subSegment) =
               CheckStateConstraintsAcrossSegment PathStepCount InterpolateInputs c cInput resolution
         in
         if \<not> valid then
           (case subSegment of
              Some sub \<Rightarrow>
                (let subSegmentValid = fst (CheckSegmentConstraints c sub) in
                 if subSegmentValid then (False, subSegment) else (False, None))
            | None \<Rightarrow> (False, None))
         else (True, None)))"

text \<open>
  The vocabulary of the claims about these functions, written from their words and not from
  the loops above. A state passes all state constraints when every constraint registered in
  the handler accepts it, a segment passes all segment constraints likewise; the lemmas
  \<open>CheckStateConstraints_iff\<close> and \<open>CheckSegmentConstraints_iff\<close> compare this with what
  \<^verbatim>\<open>CheckStateConstraints\<close> and \<^verbatim>\<open>CheckSegmentConstraints\<close> compute.
\<close>

definition passesAllStateConstraints :: "ConstraintHandler \<Rightarrow> StateInput \<Rightarrow> bool" where
  "passesAllStateConstraints c s = (\<forall>(n, cFunc) \<in> set (stateConstraints c). cFunc s)"

definition passesAllSegmentConstraints :: "ConstraintHandler \<Rightarrow> SegmentInput \<Rightarrow> bool" where
  "passesAllSegmentConstraints c ci = (\<forall>(n, cFunc) \<in> set (segmentConstraints c). cFunc ci)"

text \<open>
  The segment resolves when \<^verbatim>\<open>resolveInputsToPositions\<close> succeeds; \<open>stepCount\<close> is then the
  number of steps that \<^verbatim>\<open>PathStepCount\<close> gives for the two poses and the resolution. The
  interpolated state of step \<open>i\<close> satisfies the state constraints when its pose can be
  resolved and every registered state constraint accepts it; it violates them when its pose
  can be resolved and some registered state constraint rejects it. A state whose pose cannot
  be resolved does neither.
\<close>

definition stepCount ::
  "(Pose \<Rightarrow> Pose \<Rightarrow> real \<Rightarrow> int) \<Rightarrow> SegmentInput \<Rightarrow> real \<Rightarrow> int option" where
  "stepCount PathStepCount ci resolution =
     (case SegmentInput_resolveInputsToPositions ci of
        Inl err \<Rightarrow> None
      | Inr ci' \<Rightarrow>
          (case (StartPosition ci', EndPosition ci') of
             (Some startPos, Some endPos) \<Rightarrow> Some (PathStepCount startPos endPos resolution)
           | _ \<Rightarrow> None))"

definition stateSatisfies ::
  "(Input list option \<Rightarrow> Input list option \<Rightarrow> float64 \<Rightarrow> Input list option) \<Rightarrow>
   ConstraintHandler \<Rightarrow> SegmentInput \<Rightarrow> int \<Rightarrow> int \<Rightarrow> bool" where
  "stateSatisfies InterpolateInputs c ci steps i =
     (case StateInput_resolveInputsToPositions (interpolatedState InterpolateInputs ci steps i) of
        Inl err \<Rightarrow> False
      | Inr interpC \<Rightarrow> passesAllStateConstraints c interpC)"

definition stateViolates ::
  "(Input list option \<Rightarrow> Input list option \<Rightarrow> float64 \<Rightarrow> Input list option) \<Rightarrow>
   ConstraintHandler \<Rightarrow> SegmentInput \<Rightarrow> int \<Rightarrow> int \<Rightarrow> bool" where
  "stateViolates InterpolateInputs c ci steps i =
     (case StateInput_resolveInputsToPositions (interpolatedState InterpolateInputs ci steps i) of
        Inl err \<Rightarrow> False
      | Inr interpC \<Rightarrow> \<not> passesAllStateConstraints c interpC)"

text \<open>The state of step \<open>i\<close> has no pose: \<^verbatim>\<open>resolveInputsToPositions\<close> fails on it.\<close>

definition stateUnresolved ::
  "(Input list option \<Rightarrow> Input list option \<Rightarrow> float64 \<Rightarrow> Input list option) \<Rightarrow>
   SegmentInput \<Rightarrow> int \<Rightarrow> int \<Rightarrow> bool" where
  "stateUnresolved InterpolateInputs ci steps i =
     (case StateInput_resolveInputsToPositions (interpolatedState InterpolateInputs ci steps i) of
        Inl err \<Rightarrow> True
      | Inr interpC \<Rightarrow> False)"

text \<open>
  The sub-segment that the loop returns when step \<open>k\<close> fails: from the start configuration
  to the configuration of step \<open>k - 1\<close>, with no poses and no frame.
\<close>

definition prefixSegment ::
  "(Input list option \<Rightarrow> Input list option \<Rightarrow> float64 \<Rightarrow> Input list option) \<Rightarrow>
   SegmentInput \<Rightarrow> int \<Rightarrow> int \<Rightarrow> SegmentInput" where
  "prefixSegment InterpolateInputs ci steps k =
     \<lparr>StartPosition = None, EndPosition = None,
      StartConfiguration = StartConfiguration ci,
      EndConfiguration = Configuration (interpolatedState InterpolateInputs ci steps (k - 1)),
      Segment_Frame = None\<rparr>"

text \<open>
  Every interpolated state of the segment, from step 0 to the last, satisfies the state
  constraints: the segment resolves, and each of the states does.
\<close>

definition allStatesSatisfy ::
  "(Pose \<Rightarrow> Pose \<Rightarrow> real \<Rightarrow> int) \<Rightarrow>
   (Input list option \<Rightarrow> Input list option \<Rightarrow> float64 \<Rightarrow> Input list option) \<Rightarrow>
   ConstraintHandler \<Rightarrow> SegmentInput \<Rightarrow> real \<Rightarrow> bool" where
  "allStatesSatisfy PathStepCount InterpolateInputs c ci resolution =
     (case stepCount PathStepCount ci resolution of
        None \<Rightarrow> False
      | Some steps \<Rightarrow> list_all (stateSatisfies InterpolateInputs c ci steps) [0..steps])"

text \<open>
  Modelled from the spec: \<^verbatim>\<open>PathStepCount\<close> is missing from the sources. The spec: the
  configuration is interpolated "at a resolution proportional to the Cartesian/orientation
  distance traveled (\<^verbatim>\<open>PathStepCount\<close>)". The distance traveled between two poses is the
  larger of the distance between their points and the distance between their orientations
  (which belongs to \<^verbatim>\<open>spatialmath\<close>, missing too, and is a parameter); the number of steps is
  the number of whole resolutions in that distance, and one more, so that a segment has its
  two ends at least.
\<close>

definition distanceTraveled :: "(R4AA \<Rightarrow> R4AA \<Rightarrow> real) \<Rightarrow> Pose \<Rightarrow> Pose \<Rightarrow> real" where
  "distanceTraveled orientationDistance startPos endPos =
     max (r3_Norm \<lparr>X = X (Point endPos) - X (Point startPos),
                  Y = Y (Point endPos) - Y (Point startPos),
                  Z = Z (Point endPos) - Z (Point startPos)\<rparr>)
         \<bar>orientationDistance (Orientation startPos) (Orientation endPos)\<bar>"

definition PathStepCount :: "(R4AA \<Rightarrow> R4AA \<Rightarrow> real) \<Rightarrow> Pose \<Rightarrow> Pose \<Rightarrow> real \<Rightarrow> int" where
  "PathStepCount orientationDistance startPos endPos resolution =
     \<lfloor>distanceTraveled orientationDistance startPos endPos / resolution\<rfloor> + 1"

section \<open>services/motion/builtin/move_request.go: the replan budget\<close>

definition defaultMaxReplans :: int where
  "defaultMaxReplans = -1"

text \<open>
  The part of \<^verbatim>\<open>validatedExtra\<close> that the constructors read. \<^verbatim>\<open>newValidatedExtra\<close> is not
  among the sources: it is the parameter \<open>newValidatedExtra\<close> below.
\<close>

record validatedExtra =
  maxReplans :: int
  replanCostFactor :: real
  motionProfile :: string

text \<open>
  \<^verbatim>\<open>newMoveOnGlobeRequest\<close> (lines 373-490). \<open>buildGlobe\<close> stands for everything after the
  replan check (lines 390-489: validation of the motion configuration and of the destination,
  the localizer, the kinematic base, \<^verbatim>\<open>relativeMoveRequestFromAbsolute\<close>).
\<close>

definition newMoveOnGlobeRequest ::
  "('x \<Rightarrow> error + validatedExtra) \<Rightarrow> (validatedExtra \<Rightarrow> 'r \<Rightarrow> error + 'm) \<Rightarrow>
   'x \<Rightarrow> 'r \<Rightarrow> int \<Rightarrow> error + 'm" where
  "newMoveOnGlobeRequest newValidatedExtra buildGlobe extra req replanCount =
     (case newValidatedExtra extra of
        Inl err \<Rightarrow> Inl err
      | Inr valExtra \<Rightarrow>
          if maxReplans valExtra \<ge> 0 then
            (if replanCount > maxReplans valExtra
             then Inl (ExceededMaxReplans (maxReplans valExtra))
             else buildGlobe valExtra req)
          else buildGlobe valExtra req)"

text \<open>\<^verbatim>\<open>newMoveOnMapRequest\<close> (lines 493-583); \<open>buildMap\<close> stands for lines 510-582.\<close>

definition newMoveOnMapRequest ::
  "('x \<Rightarrow> error + validatedExtra) \<Rightarrow> (validatedExtra \<Rightarrow> 'r \<Rightarrow> error + 'm) \<Rightarrow>
   'x \<Rightarrow> 'r \<Rightarrow> int \<Rightarrow> error + 'm" where
  "newMoveOnMapRequest newValidatedExtra buildMap extra req replanCount =
     (case newValidatedExtra extra of
        Inl err \<Rightarrow> Inl err
      | Inr valExtra \<Rightarrow>
          if maxReplans valExtra \<ge> 0 then
            (if replanCount > maxReplans valExtra
             then Inl (ExceededMaxReplans (maxReplans valExtra))
             else buildMap valExtra req)
          else buildMap valExtra req)"

text \<open>
  The result of a constructor is an "exceeded maximum number of replans" error.
\<close>

definition isExceededMaxReplans :: "error + 'm \<Rightarrow> bool" where
  "isExceededMaxReplans r = (case r of Inl (ExceededMaxReplans n) \<Rightarrow> True | _ \<Rightarrow> False)"

section \<open>services/motion/builtin/move_request.go: executing a plan\<close>

text \<open>
  A \<^verbatim>\<open>context.Context\<close> by the way it was made; a \<^verbatim>\<open>time.Duration\<close> counts nanoseconds.
\<close>

datatype Context = Background | WithCancel Context | WithTimeout Context nat

definition Second :: nat where
  "Second = 1000000000"

definition baseStopTimeout :: nat where
  "baseStopTimeout = Second * 5"

record ExecuteResponse =
  Replan :: bool
  ReplanReason :: string

definition emptyExecuteResponse :: ExecuteResponse where
  "emptyExecuteResponse = \<lparr>Replan = False, ReplanReason = []\<rparr>"

text \<open>
  The collaborators of \<^verbatim>\<open>execute\<close>. \<open>'w\<close> is the state of everything outside the move
  request: the robot, the sensors and the contexts (whether and when they are cancelled).
  A command to the kinematic base changes that state and may fail; \<^verbatim>\<open>ErrorState\<close> reads it.
  \<open>ctxErr ctx w\<close> is \<^verbatim>\<open>ctx.Err()\<close> in the state \<open>w\<close>: \<open>None\<close> as long as the context is not done.
  \<^verbatim>\<open>plan.Trajectory().GetFrameInputs\<close> and the text of the replan reason
  (\<^verbatim>\<open>fmt.Sprintf\<close>) are parameters too.
\<close>

record ('w, 'p) KinematicBase =
  ShortName :: string
  GoToInputs :: "Context \<Rightarrow> Input list \<Rightarrow> 'w \<Rightarrow> error option \<times> 'w"
  Stop :: "Context \<Rightarrow> 'w \<Rightarrow> error option \<times> 'w"
  ErrorState :: "Context \<Rightarrow> 'p \<Rightarrow> int \<Rightarrow> 'w \<Rightarrow> error + Pose"

record ('w, 'p) moveRequest =
  planDeviationMM :: real
  kinematicBase :: "('w, 'p) KinematicBase"
  ctxErr :: "Context \<Rightarrow> 'w \<Rightarrow> error option"
  GetFrameInputs :: "'p \<Rightarrow> string \<Rightarrow> error + Input list list"
  deviationReason :: "real \<Rightarrow> real \<Rightarrow> r3_Vector \<Rightarrow> string"

text \<open>
  What \<^verbatim>\<open>execute\<close> changes: the outside world and the atomic 32-bit waypoint index that the
  move request shares with its pollers.
\<close>

record 'w execState =
  world :: 'w
  waypointIndex :: "32 word"

text \<open>
  \<^verbatim>\<open>relativeMoveRequestFromAbsolute\<close>, lines 657-658: the index of a new move request is
  stored as 1.
\<close>

definition newExecState :: "'w \<Rightarrow> 'w execState" where
  "newExecState w = \<lparr>world = w, waypointIndex = 1\<rparr>"

text \<open>\<^verbatim>\<open>moveRequest.stop\<close> (lines 764-772).\<close>

definition stop :: "('w, 'p) moveRequest \<Rightarrow> 'w \<Rightarrow> error option \<times> 'w" where
  "stop mr w =
     (let stopCtx = WithTimeout Background baseStopTimeout in
      case Stop (kinematicBase mr) stopCtx w of
        (Some stopErr, w') \<Rightarrow> (Some stopErr, w')
      | (None, w') \<Rightarrow> (None, w'))"

text \<open>\<^verbatim>\<open>moveRequest.deviatedFromPlan\<close> (lines 139-150).\<close>

definition deviatedFromPlan ::
  "('w, 'p) moveRequest \<Rightarrow> Context \<Rightarrow> 'p \<Rightarrow> int \<Rightarrow> 'w \<Rightarrow> ExecuteResponse \<times> error option" where
  "deviatedFromPlan mr ctx plan wpIndex w =
     (case ErrorState (kinematicBase mr) ctx plan wpIndex w of
        Inl err \<Rightarrow> (emptyExecuteResponse, Some err)
      | Inr errorState \<Rightarrow>
          if r3_Norm (Point errorState) > planDeviationMM mr
          then (\<lparr>Replan = True,
                 ReplanReason = deviationReason mr (planDeviationMM mr)
                                  (r3_Norm (Point errorState)) (Point errorState)\<rparr>, None)
          else (emptyExecuteResponse, None))"

text \<open>
  One pass through the body of the loop of \<^verbatim>\<open>execute\<close> (lines 111-131), for the loop
  variable \<open>i\<close>: either the loop goes on with a new state, or \<^verbatim>\<open>execute\<close> returns, or the
  index \<open>i\<close> is outside the slice of waypoints and the call panics.
\<close>

datatype 'w iteration =
    Continue "'w execState"
  | Return "ExecuteResponse \<times> error option" "'w execState"
  | IndexPanic

definition executeIteration ::
  "('w, 'p) moveRequest \<Rightarrow> Context \<Rightarrow> Input list list \<Rightarrow> int \<Rightarrow> 'w execState \<Rightarrow> 'w iteration" where
  "executeIteration mr ctx waypoints i st =
     (case ctxErr mr ctx (world st) of
        Some ctxE \<Rightarrow>
          (case stop mr (world st) of
             (Some stopErr, w') \<Rightarrow>
               Return (emptyExecuteResponse, Some (Wrap ctxE stopErr)) (st\<lparr>world := w'\<rparr>)
           | (None, w') \<Rightarrow> Return (emptyExecuteResponse, None) (st\<lparr>world := w'\<rparr>))
      | None \<Rightarrow>
          if i < 0 then IndexPanic
          else
            (case GoToInputs (kinematicBase mr) ctx (waypoints ! nat i) (world st) of
               (Some err, w1) \<Rightarrow>
                 (case stop mr w1 of
                    (Some stopErr, w2) \<Rightarrow>
                      Return (emptyExecuteResponse, Some (Wrap err stopErr)) (st\<lparr>world := w2\<rparr>)
                  | (None, w2) \<Rightarrow> Return (emptyExecuteResponse, Some err) (st\<lparr>world := w2\<rparr>))
             | (None, w1) \<Rightarrow>
                 if i < int (length waypoints) - 1
                 then Continue (st\<lparr>world := w1, waypointIndex := waypointIndex st + 1\<rparr>)
                 else Continue (st\<lparr>world := w1\<rparr>)))"

text \<open>
  The loop of \<^verbatim>\<open>execute\<close> (lines 110-134) from the loop variable \<open>i\<close> on, and the call of
  \<^verbatim>\<open>deviatedFromPlan\<close> that follows it.
\<close>

function executeLoop ::
  "('w, 'p) moveRequest \<Rightarrow> Context \<Rightarrow> 'p \<Rightarrow> Input list list \<Rightarrow> int \<Rightarrow> 'w execState \<Rightarrow>
   ((ExecuteResponse \<times> error option) \<times> 'w execState) outcome" where
  "executeLoop mr ctx plan waypoints i st =
     (if i < int (length waypoints) then
        (case executeIteration mr ctx waypoints i st of
           Continue st' \<Rightarrow> executeLoop mr ctx plan waypoints (i + 1) st'
         | Return r st' \<Rightarrow> Returned (r, st')
         | IndexPanic \<Rightarrow> Panicked)
      else
        Returned (deviatedFromPlan mr ctx plan (int (length waypoints) - 1) (world st), st))"
  by pat_completeness auto
termination
  by (relation "measure (\<lambda>(mr, ctx, plan, waypoints, i, st). nat (int (length waypoints) - i))") auto

declare executeLoop.simps [simp del]

text \<open>\<^verbatim>\<open>moveRequest.execute\<close> (lines 103-135).\<close>

definition execute ::
  "('w, 'p) moveRequest \<Rightarrow> Context \<Rightarrow> 'p \<Rightarrow> 'w execState \<Rightarrow>
   ((ExecuteResponse \<times> error option) \<times> 'w execState) outcome" where
  "execute mr ctx plan st =
     (case GetFrameInputs mr plan (ShortName (kinematicBase mr)) of
        Inl err \<Rightarrow> Returned ((emptyExecuteResponse, Some err), st)
      | Inr waypoints \<Rightarrow> executeLoop mr ctx plan waypoints (sint (waypointIndex st)) st)"

text \<open>
  The loop has gone, without returning, from the loop variable \<open>i\<close> and state \<open>st\<close> to the
  loop variable \<open>j\<close> and state \<open>st'\<close>.
\<close>

inductive loopReaches ::
  "('w, 'p) moveRequest \<Rightarrow> Context \<Rightarrow> Input list list \<Rightarrow> int \<Rightarrow> 'w execState \<Rightarrow>
   int \<Rightarrow> 'w execState \<Rightarrow> bool"
  for mr ctx waypoints i st where
    here: "loopReaches mr ctx waypoints i st i st"
  | pass: "loopReaches mr ctx waypoints i st j st' \<Longrightarrow> j < int (length waypoints) \<Longrightarrow>
           executeIteration mr ctx waypoints j st' = Continue st'' \<Longrightarrow>
           loopReaches mr ctx waypoints i st (j + 1) st''"

text \<open>
  The Executing phase that \<^verbatim>\<open>start\<close> (lines 712-733) sets up: the actuation loop, with its
  loop variable, beside the two pollers. \<open>returned\<close> says that \<^verbatim>\<open>execute\<close> has returned.
\<close>

record 'w executing =
  exec :: "'w execState"
  loopVar :: int
  returned :: bool

text \<open>
  The state in which \<^verbatim>\<open>execute\<close> enters its loop: the loop variable is loaded from the index
  (line 110).
\<close>

definition startExecuting :: "'w execState \<Rightarrow> 'w executing" where
  "startExecuting st = \<lparr>exec = st, loopVar = sint (waypointIndex st), returned = False\<rparr>"

text \<open>
  The steps of the Executing phase. \<open>actuate\<close>, \<open>actuate_return\<close> and \<open>loop_exit\<close> are
  the steps of \<^verbatim>\<open>execute\<close>, taken from \<open>executeIteration\<close> and \<open>executeLoop\<close> above.

  Modelled from the spec: \<^verbatim>\<open>replanner.startPolling\<close>, the body of the two pollers, is
  missing from the sources. The spec: the index "is read by the pollers to know which
  waypoint is current - pollers never advance it, only the actuation loop does". The step
  \<open>poll\<close> is one run of a poller's callback: \<^verbatim>\<open>deviatedFromPlan\<close> or
  \<^verbatim>\<open>obstaclesIntersectPlan\<close>, which the sources call with the plan and the value of the
  index (their parameter is \<^verbatim>\<open>waypointIndex int\<close>); what the callback and the passing of
  time do to the outside world (sensor queries, a cancellation) is left open.
\<close>

inductive executingStep ::
  "('w, 'p) moveRequest \<Rightarrow> Context \<Rightarrow> Input list list \<Rightarrow> 'w executing \<Rightarrow> 'w executing \<Rightarrow> bool"
  for mr ctx waypoints where
    actuate:
      "\<not> returned s \<Longrightarrow> loopVar s < int (length waypoints) \<Longrightarrow>
       executeIteration mr ctx waypoints (loopVar s) (exec s) = Continue st' \<Longrightarrow>
       executingStep mr ctx waypoints s (s\<lparr>exec := st', loopVar := loopVar s + 1\<rparr>)"
  | actuate_return:
      "\<not> returned s \<Longrightarrow> loopVar s < int (length waypoints) \<Longrightarrow>
       executeIteration mr ctx waypoints (loopVar s) (exec s) = Return r st' \<Longrightarrow>
       executingStep mr ctx waypoints s (s\<lparr>exec := st', returned := True\<rparr>)"
  | loop_exit:
      "\<not> returned s \<Longrightarrow> \<not> loopVar s < int (length waypoints) \<Longrightarrow>
       executingStep mr ctx waypoints s (s\<lparr>returned := True\<rparr>)"
  | poll:
      "executingStep mr ctx waypoints s (s\<lparr>exec := (exec s)\<lparr>world := w'\<rparr>\<rparr>)"

text \<open>
  The index of the final waypoint, and the step of the phase in which the actuation loop
  has just had a waypoint command complete successfully.
\<close>

definition finalIndex :: "Input list list \<Rightarrow> int" where
  "finalIndex waypoints = int (length waypoints) - 1"

definition commandSucceeded ::
  "('w, 'p) moveRequest \<Rightarrow> Context \<Rightarrow> Input list list \<Rightarrow> 'w executing \<Rightarrow> 'w executing \<Rightarrow> bool" where
  "commandSucceeded mr ctx waypoints s s' =
     (\<not> returned s \<and> 0 \<le> loopVar s \<and> loopVar s < int (length waypoints) \<and>
      ctxErr mr ctx (world (exec s)) = None \<and>
      fst (GoToInputs (kinematicBase mr) ctx (waypoints ! nat (loopVar s)) (world (exec s))) = None \<and>
      loopVar s' = loopVar s + 1)"


text \<open>
  The relation between the loop variable of \<^verbatim>\<open>execute\<close> and the shared index that holds in
  every state of the Executing phase (lemma \<open>indexInvariant_reachable\<close>): up to the last
  waypoint the index is the loop variable, afterwards it stays at the last waypoint (or at 1,
  where it started, if the plan has fewer than two waypoints).
\<close>

definition indexInvariant :: "Input list list \<Rightarrow> 'w executing \<Rightarrow> bool" where
  "indexInvariant waypoints s =
     (1 \<le> loopVar s \<and> loopVar s \<le> max 1 (int (length waypoints)) \<and>
      waypointIndex (exec s) =
        word_of_int (if loopVar s < int (length waypoints) then loopVar s
                     else max 1 (int (length waypoints) - 1)))"
section \<open>Concrete inputs\<close>

text \<open>
  The frame of \<^verbatim>\<open>TestPrismaticFrame\<close>:
  \<^verbatim>\<open>NewTranslationalFrame("test", r3.Vector{3, 4, 0}, Limit{Min: -30, Max: 30})\<close>.
\<close>

definition testPrismaticFrame :: translationalFrame where
  "testPrismaticFrame =
     NewTranslationalFrame ''test'' \<lparr>X = 3, Y = 4, Z = 0\<rparr> \<lparr>Min_limit = -30, Max_limit = 30\<rparr>"

text \<open>
  A rotational frame about the x axis, as \<^verbatim>\<open>TestRevoluteFrame\<close> builds it, with the limits
  \<open>-1\<close> and \<open>1\<close> (radians).
\<close>

definition testRevoluteFrame :: rotationalFrame where
  "testRevoluteFrame =
     \<lparr>name = ''test'', limits = [\<lparr>Min_limit = -1, Max_limit = 1\<rparr>],
      rotAxis = \<lparr>X = 1, Y = 0, Z = 0\<rparr>\<rparr>"

text \<open>
  A frame configuration with a link: a translation by \<open>(1, 2, 3)\<close> from the world frame, no
  orientation and no geometries.
\<close>

definition exampleLinkConfig :: "unit LinkConfig" where
  "exampleLinkConfig =
     \<lparr>Link_ID = ''arm'', Link_Translation = \<lparr>X = 1, Y = 2, Z = 3\<rparr>,
      Link_Orientation = None, Link_Parent = ''world''\<rparr>"

definition exampleFrameConfig :: "(unit, unit) FrameConfig" where
  "exampleFrameConfig = \<lparr>Link = Some exampleLinkConfig, Geometries = []\<rparr>"

text \<open>
  Constructors for the parameters of \<^verbatim>\<open>ModelConfig.ParseConfig\<close> with which every
  construction succeeds: static frames with a fixed pose, the single frames above, and a
  \<^verbatim>\<open>sortTransforms\<close> that returns the frames in the order of the map.
\<close>

definition exampleStaticFrame :: "string \<Rightarrow> Pose \<Rightarrow> Frame" where
  "exampleStaticFrame n p =
     \<lparr>Frame_Name = n,
      Frame_Transform = (\<lambda>input. if input = [] then Inr p
                                  else Inl (IncorrectInputLengthError (length input) 0)),
      Frame_DoF = []\<rparr>"

definition exampleDeps :: "(unit, unit, unit) frameDeps" where
  "exampleDeps =
     \<lparr>newRotationalFrame = (\<lambda>n a l. Inr (rotationalFrame_Frame
          \<lparr>name = n, limits = [l], rotAxis = \<lparr>X = RX a, Y = RY a, Z = RZ a\<rparr>\<rparr>)),
      newTranslationalFrame = (\<lambda>n a l. Inr (translationalFrame_Frame (NewTranslationalFrame n a l))),
      newStaticFrame = (\<lambda>n p. Inr (exampleStaticFrame n p)),
      newStaticFrameWithGeometry = (\<lambda>n p g. Inr (exampleStaticFrame n p)),
      axisParseConfig = (\<lambda>a. \<lparr>Theta = 0, RX = X a, RY = Y a, RZ = Z a\<rparr>),
      linkToStaticFrame = (\<lambda>l n. Inr (exampleStaticFrame n (NewPoseFromPoint (Link_Translation l)))),
      geometryParseConfig = (\<lambda>g. Inl (New ''no geometry'')),
      newPoseFromDH = (\<lambda>a d alpha. NewPoseFromPoint \<lparr>X = a, Y = 0, Z = d\<rparr>),
      sortTransforms = (\<lambda>transforms parentMap eename w. Inr (map snd transforms))\<rparr>"

text \<open>
  Kinematic chains: a link \<open>base\<close> on the world with a joint \<open>j1\<close> of a given type on it;
  the same with the link named \<open>world\<close>; two links side by side on the world; no frames.
\<close>

definition exampleLink :: "string \<Rightarrow> string \<Rightarrow> unit LinkConfig" where
  "exampleLink ident parent =
     \<lparr>Link_ID = ident, Link_Translation = \<lparr>X = 0, Y = 0, Z = 100\<rparr>,
      Link_Orientation = None, Link_Parent = parent\<rparr>"

definition exampleJoint :: "string \<Rightarrow> string \<Rightarrow> string \<Rightarrow> unit JointConfig" where
  "exampleJoint ident ty parent =
     \<lparr>Joint_ID = ident, Joint_Type = ty, Joint_Parent = parent,
      Joint_Axis = \<lparr>X = 0, Y = 0, Z = 1\<rparr>, Joint_Max = 90, Joint_Min = -90,
      Joint_Geometry = None\<rparr>"

definition chainWithJoint :: "string \<Rightarrow> (unit, unit) ModelConfig" where
  "chainWithJoint ty =
     \<lparr>Name = ''arm'', KinParamType = ''SVA'', Links = [exampleLink ''base'' ''world''],
      Joints = [exampleJoint ''j1'' ty ''base''], DHParams = []\<rparr>"

definition chainWithWorldLink :: "(unit, unit) ModelConfig" where
  "chainWithWorldLink =
     \<lparr>Name = ''arm'', KinParamType = ''SVA'', Links = [exampleLink ''world'' ''world''],
      Joints = [exampleJoint ''j1'' ''revolute'' ''world''], DHParams = []\<rparr>"

definition chainWithWorldJoint :: "(unit, unit) ModelConfig" where
  "chainWithWorldJoint =
     \<lparr>Name = ''arm'', KinParamType = ''SVA'', Links = [exampleLink ''base'' ''world''],
      Joints = [exampleJoint ''world'' ''revolute'' ''base''], DHParams = []\<rparr>"

definition chainWithTwoEnds :: "(unit, unit) ModelConfig" where
  "chainWithTwoEnds =
     \<lparr>Name = ''arm'', KinParamType = ''SVA'',
      Links = [exampleLink ''left'' ''world'', exampleLink ''right'' ''world''],
      Joints = [], DHParams = []\<rparr>"

definition chainWithNoFrames :: "(unit, unit) ModelConfig" where
  "chainWithNoFrames =
     \<lparr>Name = ''arm'', KinParamType = ''SVA'', Links = [], Joints = [], DHParams = []\<rparr>"

text \<open>
  A frame with one input \<open>q\<close> whose pose is the point \<open>(q, q\<^sup>2, 0)\<close>: when \<open>q\<close> moves
  evenly, the frame does not move on a straight line. The segment takes it from \<open>q = 0\<close> to
  \<open>q = 2\<close> with no poses given, in two steps, with linear interpolation of the inputs.
  (For a fraction that is not a number the interpolated inputs would not be numbers either;
  the example has no configuration there. With two steps the fractions are 0, 1/2 and 1.)
\<close>

definition parabolaFrame :: Frame where
  "parabolaFrame =
     \<lparr>Frame_Name = ''parabola'',
      Frame_Transform =
        (\<lambda>input. case input of
                    [i] \<Rightarrow> Inr (NewPoseFromPoint \<lparr>X = Value i, Y = Value i * Value i, Z = 0\<rparr>)
                  | _ \<Rightarrow> Inl (IncorrectInputLengthError (length input) 1)),
      Frame_DoF = [\<lparr>Min_limit = -10, Max_limit = 10\<rparr>]\<rparr>"

definition exampleSegment :: SegmentInput where
  "exampleSegment =
     \<lparr>StartPosition = None, EndPosition = None,
      StartConfiguration = Some [\<lparr>Value = 0\<rparr>], EndConfiguration = Some [\<lparr>Value = 2\<rparr>],
      Segment_Frame = Some parabolaFrame\<rparr>"

definition examplePathStepCount :: "Pose \<Rightarrow> Pose \<Rightarrow> real \<Rightarrow> int" where
  "examplePathStepCount startPos endPos resolution = 2"

definition exampleInterpolateInputs ::
  "Input list option \<Rightarrow> Input list option \<Rightarrow> float64 \<Rightarrow> Input list option" where
  "exampleInterpolateInputs start goal fraction =
     (case (start, goal, fraction) of
        (Some f, Some t, Finite fr) \<Rightarrow>
          Some (map2 (\<lambda>a b. \<lparr>Value = Value a + (Value b - Value a) * fr\<rparr>) f t)
      | _ \<Rightarrow> None)"


text \<open>
  A state constraint that keeps the frame off one point, written like the constraints of
  part_005: it resolves the pose of the state and fails when that is not possible. A segment
  constraint that wants the two configurations of a segment to differ.
\<close>

definition avoidPoint :: "r3_Vector \<Rightarrow> StateConstraint" where
  "avoidPoint pt cInput =
     (case StateInput_resolveInputsToPositions cInput of
        Inl err \<Rightarrow> False
      | Inr s \<Rightarrow> (case Position s of Some pose \<Rightarrow> Point pose \<noteq> pt | None \<Rightarrow> False))"

definition movingSegment :: SegmentConstraint where
  "movingSegment cInput = (StartConfiguration cInput \<noteq> EndConfiguration cInput)"

definition avoidHandler :: "r3_Vector \<Rightarrow> ConstraintHandler" where
  "avoidHandler pt =
     \<lparr>segmentConstraints = [(''moving'', movingSegment)],
      stateConstraints = [(''avoid'', avoidPoint pt)]\<rparr>"

text \<open>A handler with two registered state constraints, each keeping the frame off a point.\<close>

definition avoidBothHandler :: "r3_Vector \<Rightarrow> r3_Vector \<Rightarrow> ConstraintHandler" where
  "avoidBothHandler p q =
     \<lparr>segmentConstraints = [(''moving'', movingSegment)],
      stateConstraints = [(''avoid first'', avoidPoint p), (''avoid second'', avoidPoint q)]\<rparr>"

text \<open>
  A kinematic base for \<^verbatim>\<open>execute\<close>. The outside world is the log of what has happened to
  the base. A command to go to the input \<open>13\<close> fails with a fault, any other succeeds;
  stopping fails once a fault is in the log; the context is cancelled once a cancellation is
  in the log. The plan has the inputs \<open>0\<close>, \<open>1\<close> and \<open>13\<close> as its three waypoints, a second
  one has \<open>0\<close>, \<open>1\<close> and \<open>2\<close>.
\<close>

definition exampleBase :: "(string list, Input list list) KinematicBase" where
  "exampleBase =
     \<lparr>ShortName = ''base'',
      GoToInputs = (\<lambda>ctx inputs w.
         if inputs = [\<lparr>Value = 13\<rparr>] then (Some (New ''motor fault''), w @ [''fault''])
         else (None, w @ [''goto''])),
      Stop = (\<lambda>ctx w.
         if ''fault'' \<in> set w then (Some (New ''stop failed''), w @ [''stop''])
         else (None, w @ [''stop''])),
      ErrorState = (\<lambda>ctx plan wpIndex w. Inr (NewPoseFromPoint \<lparr>X = 0, Y = 0, Z = 0\<rparr>))\<rparr>"

definition exampleRequest :: "(string list, Input list list) moveRequest" where
  "exampleRequest =
     \<lparr>planDeviationMM = 100,
      kinematicBase = exampleBase,
      ctxErr = (\<lambda>ctx w. if ''cancel'' \<in> set w then Some (New ''context canceled'') else None),
      GetFrameInputs = (\<lambda>plan n. Inr plan),
      deviationReason = (\<lambda>allowed deviation errorState. ''deviated'')\<rparr>"

definition faultyPlan :: "Input list list" where
  "faultyPlan = [[\<lparr>Value = 0\<rparr>], [\<lparr>Value = 1\<rparr>], [\<lparr>Value = 13\<rparr>]]"

definition goodPlan :: "Input list list" where
  "goodPlan = [[\<lparr>Value = 0\<rparr>], [\<lparr>Value = 1\<rparr>], [\<lparr>Value = 2\<rparr>]]"

chapter \<open>Theorems\<close>

section \<open>The replan budget of a move request\<close>

lemma isExceededMaxReplans_iff:
  "isExceededMaxReplans r \<longleftrightarrow> (\<exists>n. r = Inl (ExceededMaxReplans n))"
  by (auto simp: isExceededMaxReplans_def split: sum.splits error.splits)

text \<open>
  C7. Let the extra arguments validate to \<open>v\<close>. With a non-negative maximum number of
  replans, both constructors fail with the "exceeded maximum number of replans" error, which
  names that maximum, when the replan count exceeds the maximum, and otherwise continue with
  the rest of the constructor; as that rest does not report such an error itself, the error
  appears exactly when the count exceeds the maximum. With a negative maximum, as the default
  \<open>-1\<close>, the check never fires, whatever the replan count: both constructors always
  continue with the rest of the constructor, and replans are not bounded.
\<close>

theorem C7_max_replans:
  assumes "newValidatedExtra extra = Inr v"
    and "\<not> isExceededMaxReplans (build v req)"
  shows "(0 \<le> maxReplans v \<longrightarrow>
           (isExceededMaxReplans
              (newMoveOnGlobeRequest newValidatedExtra build extra req replanCount)
              \<longleftrightarrow> replanCount > maxReplans v) \<and>
           (isExceededMaxReplans
              (newMoveOnMapRequest newValidatedExtra build extra req replanCount)
              \<longleftrightarrow> replanCount > maxReplans v) \<and>
           (replanCount > maxReplans v \<longrightarrow>
              newMoveOnGlobeRequest newValidatedExtra build extra req replanCount
                = Inl (ExceededMaxReplans (maxReplans v)) \<and>
              newMoveOnMapRequest newValidatedExtra build extra req replanCount
                = Inl (ExceededMaxReplans (maxReplans v))) \<and>
           (replanCount \<le> maxReplans v \<longrightarrow>
              newMoveOnGlobeRequest newValidatedExtra build extra req replanCount = build v req \<and>
              newMoveOnMapRequest newValidatedExtra build extra req replanCount = build v req)) \<and>
         (maxReplans v < 0 \<longrightarrow>
           newMoveOnGlobeRequest newValidatedExtra build extra req replanCount = build v req \<and>
           newMoveOnMapRequest newValidatedExtra build extra req replanCount = build v req \<and>
           \<not> isExceededMaxReplans
               (newMoveOnGlobeRequest newValidatedExtra build extra req replanCount) \<and>
           \<not> isExceededMaxReplans
               (newMoveOnMapRequest newValidatedExtra build extra req replanCount)) \<and>
         defaultMaxReplans < 0"
proof -
  have globe: "newMoveOnGlobeRequest newValidatedExtra build extra req replanCount =
      (if 0 \<le> maxReplans v \<and> replanCount > maxReplans v
       then Inl (ExceededMaxReplans (maxReplans v)) else build v req)"
    using assms(1) by (simp add: newMoveOnGlobeRequest_def)
  have map: "newMoveOnMapRequest newValidatedExtra build extra req replanCount =
      (if 0 \<le> maxReplans v \<and> replanCount > maxReplans v
       then Inl (ExceededMaxReplans (maxReplans v)) else build v req)"
    using assms(1) by (simp add: newMoveOnMapRequest_def)
  show ?thesis
    unfolding globe map using assms(2)
    by (auto simp: defaultMaxReplans_def isExceededMaxReplans_iff)
qed

text \<open>
  A maximum of 2: the third replan is refused by both constructors, the second is not; with
  the default maximum a request is built even for the thousandth replan.
\<close>

theorem C7_max_replans_witness:
  "isExceededMaxReplans
     (newMoveOnGlobeRequest
        (\<lambda>x. Inr \<lparr>maxReplans = x, replanCostFactor = 1, motionProfile = []\<rparr>)
        (\<lambda>v r. Inr r) (2 :: int) (7 :: nat) 3 :: error + nat) \<and>
   newMoveOnMapRequest
     (\<lambda>x. Inr \<lparr>maxReplans = x, replanCostFactor = 1, motionProfile = []\<rparr>)
     (\<lambda>v r. Inr r) (2 :: int) (7 :: nat) 3 = (Inl (ExceededMaxReplans 2) :: error + nat) \<and>
   newMoveOnGlobeRequest
     (\<lambda>x. Inr \<lparr>maxReplans = x, replanCostFactor = 1, motionProfile = []\<rparr>)
     (\<lambda>v r. Inr r) (2 :: int) (7 :: nat) 2 = (Inr 7 :: error + nat) \<and>
   newMoveOnMapRequest
     (\<lambda>x. Inr \<lparr>maxReplans = x, replanCostFactor = 1, motionProfile = []\<rparr>)
     (\<lambda>v r. Inr r) defaultMaxReplans (7 :: nat) 1000 = (Inr 7 :: error + nat)"
proof -
  let ?nve = "\<lambda>x :: int. Inr \<lparr>maxReplans = x, replanCostFactor = 1, motionProfile = []\<rparr> :: error + validatedExtra"
  let ?build = "\<lambda>(v :: validatedExtra) (r :: nat). Inr r :: error + nat"
  have ok: "\<And>v r. \<not> isExceededMaxReplans (?build v r)"
    by (simp add: isExceededMaxReplans_def)
  have a: "?nve 2 = Inr \<lparr>maxReplans = 2, replanCostFactor = 1, motionProfile = []\<rparr>"
    by simp
  have b: "?nve defaultMaxReplans =
      Inr \<lparr>maxReplans = defaultMaxReplans, replanCostFactor = 1, motionProfile = []\<rparr>"
    by simp
  note t3 = C7_max_replans [where newValidatedExtra = ?nve and build = ?build and extra = 2
      and req = 7 and replanCount = 3, OF a ok]
  note t2 = C7_max_replans [where newValidatedExtra = ?nve and build = ?build and extra = 2
      and req = 7 and replanCount = 2, OF a ok]
  note td = C7_max_replans [where newValidatedExtra = ?nve and build = ?build
      and extra = defaultMaxReplans and req = 7 and replanCount = 1000, OF b ok]
  show ?thesis
    using t3 t2 td by (simp add: defaultMaxReplans_def isExceededMaxReplans_iff)
qed

section \<open>Parsing a frame configuration\<close>

lemma FrameConfig_Pose_cases:
  "FrameConfig_Pose OP cfg = (if Link cfg = None then Panicked else Returned (Inl ErrNilPose))"
  by (simp add: FrameConfig_Pose_def Let_def)

text \<open>
  Whatever the configuration, \<^verbatim>\<open>FrameConfig.ParseConfig\<close> does not return a
  \<^verbatim>\<open>LinkInFrame\<close>: with a link it returns \<^verbatim>\<open>ErrNilPose\<close>, without one it panics.
\<close>

lemma FrameConfig_ParseConfig_cases:
  "FrameConfig_ParseConfig OP GP cfg =
     (if Link cfg = None then Panicked else Returned (Inl ErrNilPose))"
  by (simp add: FrameConfig_ParseConfig_def FrameConfig_Pose_cases)

text \<open>
  C9 (the code departs from the claim). The claim: a \<^verbatim>\<open>FrameConfig\<close> whose link is present
  parses into a \<^verbatim>\<open>LinkInFrame\<close> with the pose built from the link's translation and
  orientation, one whose link is missing fails with the nil-pose error, and parsing never
  panics. The code: the example configuration, whose link is present and describes the pose at
  the point \<open>(1, 2, 3)\<close>, is refused with \<^verbatim>\<open>ErrNilPose\<close>, and a configuration without a link
  makes \<^verbatim>\<open>ParseConfig\<close> panic. The nil test of \<^verbatim>\<open>FrameConfig.Pose\<close> is inverted.
\<close>

theorem C9_FrameConfig_ParseConfig_inverted_nil_test:
  "FrameConfig_ParseConfig OP GP exampleFrameConfig = Returned (Inl ErrNilPose) \<and>
   linkPose OP exampleLinkConfig = Inr (NewPoseFromPoint \<lparr>X = 1, Y = 2, Z = 3\<rparr>) \<and>
   FrameConfig_ParseConfig OP GP \<lparr>Link = None, Geometries = []\<rparr> = Panicked"
  by (simp add: FrameConfig_ParseConfig_cases exampleFrameConfig_def exampleLinkConfig_def
      linkPose_def)

section \<open>Single frames\<close>

lemma sqrt_25: "sqrt 25 = 5"
proof -
  have "sqrt 25 = sqrt (5\<^sup>2)" by simp
  also have "\<dots> = 5" by (simp only: real_sqrt_abs abs_numeral)
  finally show ?thesis .
qed

lemma testPrismaticFrame_axis:
  "transAxis testPrismaticFrame = \<lparr>X = 3 / 5, Y = 4 / 5, Z = 0\<rparr>"
  by (simp add: testPrismaticFrame_def NewTranslationalFrame_def r3_Normalize_def r3_Norm2_def
      r3_Mul_def Let_def sqrt_25)

lemma testPrismaticFrame_limits:
  "limits testPrismaticFrame = [\<lparr>Min_limit = -30, Max_limit = 30\<rparr>]"
  by (simp add: testPrismaticFrame_def NewTranslationalFrame_def)

lemma testPrismaticFrame_Transform_5:
  "translationalFrame_Transform testPrismaticFrame [\<lparr>Value = 5\<rparr>]
     = Inr (NewPoseFromPoint \<lparr>X = 3, Y = 4, Z = 0\<rparr>)"
  by (simp add: translationalFrame_Transform_def validInputs_def testPrismaticFrame_limits
      testPrismaticFrame_axis r3_Mul_def)

text \<open>
  C4 (as amended). For the translational frame constructed with axis \<open>(3, 4, 0)\<close> and limit
  \<open>{-30, 30}\<close>, \<^verbatim>\<open>Transform\<close> applied to the single input value 5 returns a pose whose point
  is \<open>(3, 4, 0)\<close> within floating tolerance, the point that \<^verbatim>\<open>TestPrismaticFrame\<close> expects,
  because the transform scales the unit axis by the scalar input: the point is the axis of
  the frame times 5, and the axis of the frame is the given axis normalized, of length 1
  within floating tolerance.
\<close>

theorem C4_prismatic_transform:
  "(case translationalFrame_Transform testPrismaticFrame [\<lparr>Value = 5\<rparr>] of
      Inl err \<Rightarrow> False
    | Inr pose \<Rightarrow>
        R3VectorAlmostEqual (Point pose) \<lparr>X = 3, Y = 4, Z = 0\<rparr> floatingTolerance \<and>
        Point pose = r3_Mul (transAxis testPrismaticFrame) 5) \<and>
   transAxis testPrismaticFrame = r3_Normalize \<lparr>X = 3, Y = 4, Z = 0\<rparr> \<and>
   \<bar>r3_Norm (transAxis testPrismaticFrame) - 1\<bar> < floatingTolerance"
proof -
  have a: "Point (NewPoseFromPoint \<lparr>X = 3, Y = 4, Z = 0\<rparr>)
      = r3_Mul (transAxis testPrismaticFrame) 5"
    by (simp add: NewPoseFromPoint_def testPrismaticFrame_axis r3_Mul_def)
  have b: "R3VectorAlmostEqual (Point (NewPoseFromPoint \<lparr>X = 3, Y = 4, Z = 0\<rparr>))
      \<lparr>X = 3, Y = 4, Z = 0\<rparr> floatingTolerance"
    by (simp add: R3VectorAlmostEqual_def NewPoseFromPoint_def floatingTolerance_def)
  have c: "transAxis testPrismaticFrame = r3_Normalize \<lparr>X = 3, Y = 4, Z = 0\<rparr>"
    by (simp add: testPrismaticFrame_def NewTranslationalFrame_def)
  have d: "\<bar>r3_Norm (transAxis testPrismaticFrame) - 1\<bar> < floatingTolerance"
    by (simp add: testPrismaticFrame_axis r3_Norm_def r3_Norm2_def floatingTolerance_def)
  show ?thesis using a b c d by (simp add: testPrismaticFrame_Transform_5)
qed

text \<open>
  The claim as stated fails: the point returned for the input 5 is not \<open>(15, 20, 0)\<close> within
  floating tolerance, its first two coordinates being more than 11 and more than 15 away
  from 15 and 20.
\<close>

theorem C4_prismatic_transform_counterexample:
  "(case translationalFrame_Transform testPrismaticFrame [\<lparr>Value = 5\<rparr>] of
      Inl err \<Rightarrow> False
    | Inr pose \<Rightarrow>
        \<not> R3VectorAlmostEqual (Point pose) \<lparr>X = 15, Y = 20, Z = 0\<rparr> floatingTolerance \<and>
        11 < \<bar>X (Point pose) - 15\<bar> \<and> 15 < \<bar>Y (Point pose) - 20\<bar>)"
  by (simp add: testPrismaticFrame_Transform_5 NewPoseFromPoint_def R3VectorAlmostEqual_def
      floatingTolerance_def)

lemma checkLimits_single:
  "checkLimits [i] [l] =
     (if Value i < Min_limit l \<or> Value i > Max_limit l then Some (OOBError (Value i) l) else None)"
  by simp

lemma translationalFrame_Transform_single:
  assumes "limits pf = [l]"
  shows "translationalFrame_Transform pf input =
     (case input of
        [i] \<Rightarrow> if Value i < Min_limit l \<or> Value i > Max_limit l then Inl (OOBError (Value i) l)
               else Inr (NewPoseFromPoint (r3_Mul (transAxis pf) (Value i)))
      | _ \<Rightarrow> Inl (IncorrectInputLengthError (length input) 1))"
  using assms
  by (auto simp: translationalFrame_Transform_def validInputs_def split: list.splits)

lemma rotationalFrame_Transform_single:
  assumes "limits rf = [l]"
  shows "rotationalFrame_Transform rf input =
     (case input of
        [i] \<Rightarrow> if Value i < Min_limit l \<or> Value i > Max_limit l then Inl (OOBError (Value i) l)
               else Inr (NewPose \<lparr>X = 0, Y = 0, Z = 0\<rparr>
                      \<lparr>Theta = Value i, RX = X (rotAxis rf), RY = Y (rotAxis rf), RZ = Z (rotAxis rf)\<rparr>)
      | _ \<Rightarrow> Inl (IncorrectInputLengthError (length input) 1))"
  using assms
  by (auto simp: rotationalFrame_Transform_def validInputs_def split: list.splits)

text \<open>
  C5 (as amended). Let \<open>pf\<close> be a translational and \<open>rf\<close> a rotational frame with the one limit
  \<open>l\<close>. \<^verbatim>\<open>Transform\<close> with an input whose length is not 1 returns an error (it tells the
  length given and the length needed). \<^verbatim>\<open>Transform\<close> with a value below the minimum or above
  the maximum returns the out-of-bounds error, which holds the offending value and the
  violated limit, and nothing else: the frame's name is not part of it, so that renaming the
  frame does not change the result. If the minimum is not above the maximum, \<^verbatim>\<open>Transform\<close>
  with the minimum or with the maximum as value succeeds.
\<close>

theorem C5_single_dof_inputs:
  assumes "limits pf = [l]" and "limits rf = [l]"
  shows "(length input \<noteq> 1 \<longrightarrow>
            translationalFrame_Transform pf input
              = Inl (IncorrectInputLengthError (length input) 1) \<and>
            rotationalFrame_Transform rf input
              = Inl (IncorrectInputLengthError (length input) 1)) \<and>
         (v < Min_limit l \<or> v > Max_limit l \<longrightarrow>
            translationalFrame_Transform pf [\<lparr>Value = v\<rparr>] = Inl (OOBError v l) \<and>
            rotationalFrame_Transform rf [\<lparr>Value = v\<rparr>] = Inl (OOBError v l)) \<and>
         translationalFrame_Transform (pf\<lparr>name := n\<rparr>) input = translationalFrame_Transform pf input \<and>
         rotationalFrame_Transform (rf\<lparr>name := n\<rparr>) input = rotationalFrame_Transform rf input \<and>
         (Min_limit l \<le> Max_limit l \<and> (v = Min_limit l \<or> v = Max_limit l) \<longrightarrow>
            (\<exists>p. translationalFrame_Transform pf [\<lparr>Value = v\<rparr>] = Inr p) \<and>
            (\<exists>p. rotationalFrame_Transform rf [\<lparr>Value = v\<rparr>] = Inr p))"
proof -
  have n1: "limits (pf\<lparr>name := n\<rparr>) = [l]" and n2: "limits (rf\<lparr>name := n\<rparr>) = [l]"
    using assms by simp_all
  have len: "length input \<noteq> 1 \<longrightarrow>
            translationalFrame_Transform pf input
              = Inl (IncorrectInputLengthError (length input) 1) \<and>
            rotationalFrame_Transform rf input
              = Inl (IncorrectInputLengthError (length input) 1)"
    by (simp add: translationalFrame_Transform_single [OF assms(1)]
        rotationalFrame_Transform_single [OF assms(2)] split: list.splits)
  have oob: "v < Min_limit l \<or> v > Max_limit l \<longrightarrow>
            translationalFrame_Transform pf [\<lparr>Value = v\<rparr>] = Inl (OOBError v l) \<and>
            rotationalFrame_Transform rf [\<lparr>Value = v\<rparr>] = Inl (OOBError v l)"
    by (simp add: translationalFrame_Transform_single [OF assms(1)]
        rotationalFrame_Transform_single [OF assms(2)])
  have nm1: "translationalFrame_Transform (pf\<lparr>name := n\<rparr>) input
      = translationalFrame_Transform pf input"
    by (simp add: translationalFrame_Transform_single [OF assms(1)]
        translationalFrame_Transform_single [OF n1] split: list.splits)
  have nm2: "rotationalFrame_Transform (rf\<lparr>name := n\<rparr>) input
      = rotationalFrame_Transform rf input"
    by (simp add: rotationalFrame_Transform_single [OF assms(2)]
        rotationalFrame_Transform_single [OF n2] split: list.splits)
  have bnd: "Min_limit l \<le> Max_limit l \<and> (v = Min_limit l \<or> v = Max_limit l) \<longrightarrow>
            (\<exists>p. translationalFrame_Transform pf [\<lparr>Value = v\<rparr>] = Inr p) \<and>
            (\<exists>p. rotationalFrame_Transform rf [\<lparr>Value = v\<rparr>] = Inr p)"
    by (auto simp: translationalFrame_Transform_single [OF assms(1)]
        rotationalFrame_Transform_single [OF assms(2)])
  show ?thesis using len oob nm1 nm2 bnd by blast
qed

text \<open>
  The frames of the two tests: too many and no inputs, the values 50 and 2 beyond the limits,
  and the boundary values.
\<close>

theorem C5_single_dof_inputs_witness:
  "translationalFrame_Transform testPrismaticFrame [\<lparr>Value = 0\<rparr>, \<lparr>Value = 20\<rparr>, \<lparr>Value = 0\<rparr>]
     = Inl (IncorrectInputLengthError 3 1) \<and>
   rotationalFrame_Transform testRevoluteFrame [] = Inl (IncorrectInputLengthError 0 1) \<and>
   translationalFrame_Transform testPrismaticFrame [\<lparr>Value = 50\<rparr>]
     = Inl (OOBError 50 \<lparr>Min_limit = -30, Max_limit = 30\<rparr>) \<and>
   rotationalFrame_Transform testRevoluteFrame [\<lparr>Value = 2\<rparr>]
     = Inl (OOBError 2 \<lparr>Min_limit = -1, Max_limit = 1\<rparr>) \<and>
   (\<exists>p. translationalFrame_Transform testPrismaticFrame [\<lparr>Value = 30\<rparr>] = Inr p) \<and>
   (\<exists>p. rotationalFrame_Transform testRevoluteFrame [\<lparr>Value = -1\<rparr>] = Inr p)"
proof -
  have r: "limits testRevoluteFrame = [\<lparr>Min_limit = -1, Max_limit = 1\<rparr>]"
    by (simp add: testRevoluteFrame_def)
  note t = C5_single_dof_inputs [where pf = testPrismaticFrame and rf = testRevoluteFrame]
  have a: "translationalFrame_Transform testPrismaticFrame [\<lparr>Value = 0\<rparr>, \<lparr>Value = 20\<rparr>, \<lparr>Value = 0\<rparr>]
      = Inl (IncorrectInputLengthError 3 1)"
    using C5_single_dof_inputs [where pf = testPrismaticFrame and rf = "testRevoluteFrame\<lparr>limits := limits testPrismaticFrame\<rparr>"
        and input = "[\<lparr>Value = 0\<rparr>, \<lparr>Value = 20\<rparr>, \<lparr>Value = 0\<rparr>]", OF testPrismaticFrame_limits]
    by (simp add: testPrismaticFrame_limits)
  have c: "translationalFrame_Transform testPrismaticFrame [\<lparr>Value = 50\<rparr>]
      = Inl (OOBError 50 \<lparr>Min_limit = -30, Max_limit = 30\<rparr>)"
    using C5_single_dof_inputs [where pf = testPrismaticFrame and rf = "testRevoluteFrame\<lparr>limits := limits testPrismaticFrame\<rparr>"
        and v = 50, OF testPrismaticFrame_limits]
    by (simp add: testPrismaticFrame_limits)
  have e: "\<exists>p. translationalFrame_Transform testPrismaticFrame [\<lparr>Value = 30\<rparr>] = Inr p"
    using C5_single_dof_inputs [where pf = testPrismaticFrame and rf = "testRevoluteFrame\<lparr>limits := limits testPrismaticFrame\<rparr>"
        and v = 30, OF testPrismaticFrame_limits]
    by (simp add: testPrismaticFrame_limits)
  have p: "limits (testPrismaticFrame\<lparr>limits := limits testRevoluteFrame\<rparr>) = [\<lparr>Min_limit = -1, Max_limit = 1\<rparr>]"
    by (simp add: r)
  have b: "rotationalFrame_Transform testRevoluteFrame [] = Inl (IncorrectInputLengthError 0 1)"
    using C5_single_dof_inputs [where rf = testRevoluteFrame and input = "[]", OF p r]
    by simp
  have d: "rotationalFrame_Transform testRevoluteFrame [\<lparr>Value = 2\<rparr>]
      = Inl (OOBError 2 \<lparr>Min_limit = -1, Max_limit = 1\<rparr>)"
    using C5_single_dof_inputs [where rf = testRevoluteFrame and v = 2, OF p r]
    by simp
  have f: "\<exists>p. rotationalFrame_Transform testRevoluteFrame [\<lparr>Value = -1\<rparr>] = Inr p"
    using C5_single_dof_inputs [where rf = testRevoluteFrame and v = "-1", OF p r]
    by simp
  show ?thesis using a b c d e f by blast
qed

text \<open>
  The claim as stated fails: no identifying frame or joint name can be read off the
  out-of-bounds error. Two frames that differ in their names only return the same error for
  the value 50.
\<close>

theorem C5_error_names_no_frame_counterexample:
  "\<not> (\<exists>nameOf :: error \<Rightarrow> string.
        \<forall>n axis l v e.
          translationalFrame_Transform (NewTranslationalFrame n axis l) [\<lparr>Value = v\<rparr>] = Inl e
            \<longrightarrow> nameOf e = n)"
proof
  assume "\<exists>nameOf :: error \<Rightarrow> string.
        \<forall>n axis l v e.
          translationalFrame_Transform (NewTranslationalFrame n axis l) [\<lparr>Value = v\<rparr>] = Inl e
            \<longrightarrow> nameOf e = n"
  then obtain nameOf :: "error \<Rightarrow> string" where
    h: "\<And>n axis l v e.
          translationalFrame_Transform (NewTranslationalFrame n axis l) [\<lparr>Value = v\<rparr>] = Inl e
            \<Longrightarrow> nameOf e = n"
    by blast
  let ?l = "\<lparr>Min_limit = -30, Max_limit = 30\<rparr>"
  let ?a = "\<lparr>X = 3, Y = 4, Z = 0\<rparr>"
  have e: "translationalFrame_Transform (NewTranslationalFrame n ?a ?l) [\<lparr>Value = 50\<rparr>]
      = Inl (OOBError 50 ?l)" for n
    by (simp add: translationalFrame_Transform_def validInputs_def NewTranslationalFrame_def)
  have "nameOf (OOBError 50 ?l) = ''test''" using h [OF e [of "''test''"]] .
  moreover have "nameOf (OOBError 50 ?l) = ''other''" using h [OF e [of "''other''"]] .
  ultimately show False by simp
qed

section \<open>Parsing a kinematic chain\<close>

lemma fold_delete_filter:
  "fold (\<lambda>(id, trans) parents. AList.delete (g trans) parents) xs ps
     = filter (\<lambda>p. fst p \<notin> (g \<circ> snd) ` set xs) ps"
proof (induction xs arbitrary: ps)
  case Nil
  then show ?case by simp
next
  case (Cons x xs)
  obtain k t where x: "x = (k, t)" by (cases x)
  have "filter (\<lambda>p. fst p \<notin> (g \<circ> snd) ` set xs) (AList.delete (g t) ps)
      = filter (\<lambda>p. fst p \<notin> (g \<circ> snd) ` set (x # xs)) ps"
    by (induction ps) (auto simp: x)
  then show ?case by (simp add: Cons.IH x)
qed

lemma removeParents_filter:
  "removeParents transforms parentMap =
     filter (\<lambda>p. fst p \<notin> ((\<lambda>trans. parentOf parentMap (Frame_Name trans)) \<circ> snd) ` set transforms)
       transforms"
  by (simp add: removeParents_def fold_delete_filter)

text \<open>
  The deletion loop of \<^verbatim>\<open>ParseConfig\<close> leaves exactly the frames with no children, each
  once.
\<close>

lemma keys_removeParents:
  "fst ` set (removeParents transforms parentMap) = endEffectors transforms parentMap"
proof (rule set_eqI)
  fix k
  let ?par = "\<lambda>trans. parentOf parentMap (Frame_Name trans)"
  have "k \<in> fst ` set (removeParents transforms parentMap)
      \<longleftrightarrow> (\<exists>t. (k, t) \<in> set transforms \<and> k \<notin> (?par \<circ> snd) ` set transforms)"
    by (force simp: removeParents_filter)
  also have "\<dots> \<longleftrightarrow> k \<in> fst ` set transforms \<and> \<not> (\<exists>trans \<in> snd ` set transforms. ?par trans = k)"
    by force
  also have "\<dots> \<longleftrightarrow> k \<in> endEffectors transforms parentMap"
    by (simp add: endEffectors_def)
  finally show "k \<in> fst ` set (removeParents transforms parentMap)
      \<longleftrightarrow> k \<in> endEffectors transforms parentMap" .
qed

lemma distinct_removeParents:
  "distinct (map fst transforms) \<Longrightarrow> distinct (map fst (removeParents transforms parentMap))"
  by (simp add: removeParents_filter distinct_map_filter)

lemma length_removeParents:
  assumes "distinct (map fst transforms)"
  shows "length (removeParents transforms parentMap) = card (endEffectors transforms parentMap)"
proof -
  have "card (endEffectors transforms parentMap)
      = card (set (map fst (removeParents transforms parentMap)))"
    by (simp add: keys_removeParents [symmetric])
  also have "\<dots> = length (map fst (removeParents transforms parentMap))"
    by (rule distinct_card) (rule distinct_removeParents [OF assms])
  finally show ?thesis by simp
qed

lemma addLinks_distinct:
  "addLinks D ls (tr, pm) = Inr (tr', pm') \<Longrightarrow> distinct (map fst tr) \<Longrightarrow> distinct (map fst tr')"
proof (induction ls arbitrary: tr pm)
  case Nil
  then show ?case by simp
next
  case (Cons l ls)
  then show ?case
    by (auto simp: Let_def AList.distinct_update split: sum.splits)
qed

lemma addJoints_distinct:
  "addJoints D js (tr, pm) = Inr (tr', pm') \<Longrightarrow> distinct (map fst tr) \<Longrightarrow> distinct (map fst tr')"
proof (induction js arbitrary: tr pm)
  case Nil
  then show ?case by simp
next
  case (Cons j js)
  then show ?case
    by (auto simp: Let_def AList.distinct_update split: sum.splits)
qed

lemma addDHParams_distinct:
  "addDHParams D ds (tr, pm) = Inr (tr', pm') \<Longrightarrow> distinct (map fst tr) \<Longrightarrow> distinct (map fst tr')"
proof (induction ds arbitrary: tr pm)
  case Nil
  then show ?case by simp
next
  case (Cons d ds)
  from Cons.prems(1) obtain jf lf where
    rest: "addDHParams D ds
             (AList.update (DH_ID d) lf (AList.update (DH_ID d @ ''_j'') jf tr),
              AList.update (DH_ID d) (DH_ID d @ ''_j'')
                (AList.update (DH_ID d @ ''_j'') (DH_Parent d) pm)) = Inr (tr', pm')"
    by (auto simp: Let_def split: sum.splits)
  have "distinct (map fst (AList.update (DH_ID d) lf (AList.update (DH_ID d @ ''_j'') jf tr)))"
    using Cons.prems(2) by (simp add: AList.distinct_update)
  with Cons.IH [OF rest] show ?case .
qed

lemma buildTransforms_distinct:
  assumes "buildTransforms D cfg = Inr (tr, pm)"
  shows "distinct (map fst tr)"
proof (cases "KinParamType cfg = ''SVA'' \<or> KinParamType cfg = []")
  case True
  with assms obtain tr1 pm1 where
    l: "addLinks D (Links cfg) ([], []) = Inr (tr1, pm1)" and
    j: "addJoints D (Joints cfg) (tr1, pm1) = Inr (tr, pm)"
    by (auto simp: buildTransforms_def split: if_splits sum.splits)
  from addLinks_distinct [OF l] have "distinct (map fst tr1)" by simp
  with addJoints_distinct [OF j] show ?thesis .
next
  case False
  with assms have "addDHParams D (DHParams cfg) ([], []) = Inr (tr, pm)"
    by (auto simp: buildTransforms_def split: if_splits)
  from addDHParams_distinct [OF this] show ?thesis by simp
qed

lemma addJoints_supported:
  "addJoints D js tp = Inr r \<Longrightarrow> joint \<in> set js \<Longrightarrow>
   Joint_Type joint = RevoluteJoint \<or> Joint_Type joint = PrismaticJoint"
proof (induction js arbitrary: tp)
  case Nil
  then show ?case by simp
next
  case (Cons j js)
  obtain tr pm where tp: "tp = (tr, pm)" by (cases tp)
  from Cons.prems(1) obtain fr where
    fr: "JointConfig_ToFrame D j = Inr fr" and
    rest: "addJoints D js (AList.update (Joint_ID j) fr tr,
             AList.update (Joint_ID j) (Joint_Parent j) pm) = Inr r"
    by (auto simp: tp Let_def split: sum.splits)
  from fr have "Joint_Type j = RevoluteJoint \<or> Joint_Type j = PrismaticJoint"
    by (auto simp: JointConfig_ToFrame_def split: if_splits)
  with Cons.IH [OF rest] Cons.prems(2) show ?case by auto
qed

lemma ParseConfig_of_build:
  assumes "buildTransforms D cfg = Inr (tr, pm)"
  shows "ModelConfig_ParseConfig D cfg modelName =
     (if card (endEffectors tr pm) > 1 then Inl (New ''more than one end effector not supported'')
      else if card (endEffectors tr pm) < 1 then Inl (New ''need at least one end effector'')
      else
        (case sortTransforms D tr pm (fold (\<lambda>(id, _) _. id) (removeParents tr pm) []) World of
           Inl err \<Rightarrow> Inl err
         | Inr orderedTransforms \<Rightarrow>
             Inr \<lparr>model_name = (if modelName = [] then Name cfg else modelName),
                  modelConfig = cfg, OrdTransforms = orderedTransforms\<rparr>))"
  using assms
  by (simp add: ModelConfig_ParseConfig_def Let_def
      length_removeParents [OF buildTransforms_distinct [OF assms]] split: sum.splits)

lemma ParseConfig_build_error:
  "buildTransforms D cfg = Inl err \<Longrightarrow> ModelConfig_ParseConfig D cfg modelName = Inl err"
  by (simp add: ModelConfig_ParseConfig_def)

lemma list_ex_set: "list_ex P xs \<longleftrightarrow> (\<exists>x \<in> set xs. P x)"
  by (simp add: list_ex_iff)

text \<open>
  C6 (as amended). \<^verbatim>\<open>ModelConfig.ParseConfig\<close> returns an error, and no model,
  \<^item> for a description by links and joints (parameter type "SVA" or empty) in which a link
    is named "world" (the reserved-word error for links), or no link but a joint is (the one
    for joints), or a joint has a type other than "revolute" and "prismatic";
  \<^item> for any description whose frames were all constructed, when no frame or more than one
    frame has no children (the two end-effector errors).
  A model is returned only for a description with exactly one frame with no children.
  \<^verbatim>\<open>JointConfig.ToFrame\<close> hands a joint of type "revolute" to \<^verbatim>\<open>NewRotationalFrame\<close> and one
  of type "prismatic" to \<^verbatim>\<open>NewTranslationalFrame\<close>, and resolves to a frame when that
  constructor does; for every other type, the declared kinds "fixed" and "continuous"
  included, it returns the unsupported-joint-type error.
\<close>

theorem C6_ParseConfig_rejects:
  "(KinParamType cfg = ''SVA'' \<or> KinParamType cfg = [] \<longrightarrow>
      ((\<exists>link \<in> set (Links cfg). Link_ID link = World) \<longrightarrow>
         ModelConfig_ParseConfig D cfg modelName = Inl (ErrReservedWord ''link'')) \<and>
      ((\<forall>link \<in> set (Links cfg). Link_ID link \<noteq> World) \<and>
       (\<exists>joint \<in> set (Joints cfg). Joint_ID joint = World) \<longrightarrow>
         ModelConfig_ParseConfig D cfg modelName = Inl (ErrReservedWord ''joint'')) \<and>
      ((\<exists>joint \<in> set (Joints cfg).
           Joint_Type joint \<noteq> RevoluteJoint \<and> Joint_Type joint \<noteq> PrismaticJoint) \<longrightarrow>
         (\<exists>err. ModelConfig_ParseConfig D cfg modelName = Inl err))) \<and>
   (\<forall>transforms parentMap. buildTransforms D cfg = Inr (transforms, parentMap) \<longrightarrow>
      (card (endEffectors transforms parentMap) = 0 \<longrightarrow>
         ModelConfig_ParseConfig D cfg modelName = Inl (New ''need at least one end effector'')) \<and>
      (card (endEffectors transforms parentMap) > 1 \<longrightarrow>
         ModelConfig_ParseConfig D cfg modelName
           = Inl (New ''more than one end effector not supported''))) \<and>
   (\<forall>model. ModelConfig_ParseConfig D cfg modelName = Inr model \<longrightarrow>
      (\<exists>transforms parentMap. buildTransforms D cfg = Inr (transforms, parentMap) \<and>
         card (endEffectors transforms parentMap) = 1)) \<and>
   (Joint_Type joint = RevoluteJoint \<longrightarrow>
      JointConfig_ToFrame D joint =
        newRotationalFrame D (Joint_ID joint) (axisParseConfig D (Joint_Axis joint))
          \<lparr>Min_limit = DegToRad (Joint_Min joint), Max_limit = DegToRad (Joint_Max joint)\<rparr>) \<and>
   (Joint_Type joint = PrismaticJoint \<longrightarrow>
      JointConfig_ToFrame D joint =
        newTranslationalFrame D (Joint_ID joint) (Joint_Axis joint)
          \<lparr>Min_limit = Joint_Min joint, Max_limit = Joint_Max joint\<rparr>) \<and>
   (Joint_Type joint \<noteq> RevoluteJoint \<and> Joint_Type joint \<noteq> PrismaticJoint \<longrightarrow>
      JointConfig_ToFrame D joint = Inl (UnsupportedJointTypeError (Joint_Type joint))) \<and>
   (Joint_Type joint = FixedJoint \<or> Joint_Type joint = ContinuousJoint \<longrightarrow>
      JointConfig_ToFrame D joint = Inl (UnsupportedJointTypeError (Joint_Type joint)))"
proof -
  have world_link: "ModelConfig_ParseConfig D cfg modelName = Inl (ErrReservedWord ''link'')"
    if "KinParamType cfg = ''SVA'' \<or> KinParamType cfg = []"
      and "\<exists>link \<in> set (Links cfg). Link_ID link = World"
  proof -
    have "buildTransforms D cfg = Inl (ErrReservedWord ''link'')"
      using that by (auto simp: buildTransforms_def list_ex_set)
    then show ?thesis by (rule ParseConfig_build_error)
  qed
  have world_joint: "ModelConfig_ParseConfig D cfg modelName = Inl (ErrReservedWord ''joint'')"
    if "KinParamType cfg = ''SVA'' \<or> KinParamType cfg = []"
      and "\<forall>link \<in> set (Links cfg). Link_ID link \<noteq> World"
      and "\<exists>joint \<in> set (Joints cfg). Joint_ID joint = World"
  proof -
    have "buildTransforms D cfg = Inl (ErrReservedWord ''joint'')"
      using that by (auto simp: buildTransforms_def list_ex_set)
    then show ?thesis by (rule ParseConfig_build_error)
  qed
  have unsupported: "\<exists>err. ModelConfig_ParseConfig D cfg modelName = Inl err"
    if sva: "KinParamType cfg = ''SVA'' \<or> KinParamType cfg = []"
      and j: "\<exists>joint \<in> set (Joints cfg).
           Joint_Type joint \<noteq> RevoluteJoint \<and> Joint_Type joint \<noteq> PrismaticJoint"
  proof (cases "buildTransforms D cfg")
    case (Inl err)
    then show ?thesis by (auto dest: ParseConfig_build_error)
  next
    case (Inr tp)
    with sva obtain tp1 where "addJoints D (Joints cfg) tp1 = Inr tp"
      by (auto simp: buildTransforms_def split: if_splits sum.splits)
    from addJoints_supported [OF this] j show ?thesis by blast
  qed
  have ends: "(card (endEffectors transforms parentMap) = 0 \<longrightarrow>
         ModelConfig_ParseConfig D cfg modelName = Inl (New ''need at least one end effector'')) \<and>
      (card (endEffectors transforms parentMap) > 1 \<longrightarrow>
         ModelConfig_ParseConfig D cfg modelName
           = Inl (New ''more than one end effector not supported''))"
    if "buildTransforms D cfg = Inr (transforms, parentMap)" for transforms parentMap
    by (simp add: ParseConfig_of_build [OF that])
  have model: "\<exists>transforms parentMap. buildTransforms D cfg = Inr (transforms, parentMap) \<and>
         card (endEffectors transforms parentMap) = 1"
    if m: "ModelConfig_ParseConfig D cfg modelName = Inr model" for model
  proof (cases "buildTransforms D cfg")
    case (Inl err)
    from ParseConfig_build_error [OF this] m show ?thesis by simp
  next
    case (Inr tp)
    obtain tr pm where tp: "tp = (tr, pm)" by (cases tp)
    from m have "card (endEffectors tr pm) = 1"
      unfolding ParseConfig_of_build [OF Inr [unfolded tp]]
      by (auto split: if_splits)
    with Inr tp show ?thesis by blast
  qed
  have fixed_continuous:
    "FixedJoint \<noteq> RevoluteJoint" "FixedJoint \<noteq> PrismaticJoint"
    "ContinuousJoint \<noteq> RevoluteJoint" "ContinuousJoint \<noteq> PrismaticJoint"
    by (simp_all add: FixedJoint_def ContinuousJoint_def RevoluteJoint_def PrismaticJoint_def)
  have prismatic: "PrismaticJoint \<noteq> RevoluteJoint"
    by (simp add: RevoluteJoint_def PrismaticJoint_def)
  have toFrame:
    "(Joint_Type joint = RevoluteJoint \<longrightarrow>
      JointConfig_ToFrame D joint =
        newRotationalFrame D (Joint_ID joint) (axisParseConfig D (Joint_Axis joint))
          \<lparr>Min_limit = DegToRad (Joint_Min joint), Max_limit = DegToRad (Joint_Max joint)\<rparr>) \<and>
     (Joint_Type joint = PrismaticJoint \<longrightarrow>
      JointConfig_ToFrame D joint =
        newTranslationalFrame D (Joint_ID joint) (Joint_Axis joint)
          \<lparr>Min_limit = Joint_Min joint, Max_limit = Joint_Max joint\<rparr>) \<and>
     (Joint_Type joint \<noteq> RevoluteJoint \<and> Joint_Type joint \<noteq> PrismaticJoint \<longrightarrow>
      JointConfig_ToFrame D joint = Inl (UnsupportedJointTypeError (Joint_Type joint))) \<and>
     (Joint_Type joint = FixedJoint \<or> Joint_Type joint = ContinuousJoint \<longrightarrow>
      JointConfig_ToFrame D joint = Inl (UnsupportedJointTypeError (Joint_Type joint)))"
    using fixed_continuous prismatic by (auto simp: JointConfig_ToFrame_def)
  show ?thesis
    using world_link world_joint unsupported ends model toFrame by blast
qed

lemma build_chainWithJoint:
  assumes "ty = RevoluteJoint \<or> ty = PrismaticJoint"
  shows "\<exists>f1 f2. buildTransforms exampleDeps (chainWithJoint ty)
           = Inr ([(''base'', f1), (''j1'', f2)], [(''base'', ''world''), (''j1'', ''base'')]) \<and>
         Frame_Name f1 = ''base'' \<and> Frame_Name f2 = ''j1''"
  using assms
  by (auto simp: buildTransforms_def chainWithJoint_def exampleLink_def exampleJoint_def
      exampleDeps_def World_def JointConfig_ToFrame_def RevoluteJoint_def PrismaticJoint_def
      exampleStaticFrame_def rotationalFrame_Frame_def translationalFrame_Frame_def
      NewTranslationalFrame_def)

lemma parse_chainWithJoint:
  assumes "ty = RevoluteJoint \<or> ty = PrismaticJoint"
  shows "\<exists>model. ModelConfig_ParseConfig exampleDeps (chainWithJoint ty) [] = Inr model \<and>
           map Frame_Name (OrdTransforms model) = [''base'', ''j1''] \<and> model_name model = ''arm''"
proof -
  from build_chainWithJoint [OF assms] obtain f1 f2 where
    b: "buildTransforms exampleDeps (chainWithJoint ty)
           = Inr ([(''base'', f1), (''j1'', f2)], [(''base'', ''world''), (''j1'', ''base'')])" and
    n: "Frame_Name f1 = ''base''" "Frame_Name f2 = ''j1''"
    by blast
  have d: "distinct (map fst [(''base'', f1), (''j1'', f2)])" by simp
  have c: "card (endEffectors [(''base'', f1), (''j1'', f2)]
                  [(''base'', ''world''), (''j1'', ''base'')]) = 1"
    unfolding length_removeParents [OF d, symmetric]
    by (simp add: removeParents_def parentOf_def n)
  show ?thesis
    unfolding ParseConfig_of_build [OF b]
    by (simp add: c n exampleDeps_def chainWithJoint_def)
qed

text \<open>
  With constructors that always succeed: a link and a joint named "world", a helical joint,
  a description without frames and one with two frames side by side are rejected; a link
  with a revolute joint on it is parsed, the joint being the end effector.
\<close>

theorem C6_ParseConfig_rejects_witness:
  "ModelConfig_ParseConfig exampleDeps chainWithWorldLink [] = Inl (ErrReservedWord ''link'') \<and>
   ModelConfig_ParseConfig exampleDeps chainWithWorldJoint [] = Inl (ErrReservedWord ''joint'') \<and>
   (\<exists>err. ModelConfig_ParseConfig exampleDeps (chainWithJoint ''helical'') [] = Inl err) \<and>
   ModelConfig_ParseConfig exampleDeps chainWithNoFrames []
     = Inl (New ''need at least one end effector'') \<and>
   ModelConfig_ParseConfig exampleDeps chainWithTwoEnds []
     = Inl (New ''more than one end effector not supported'') \<and>
   (\<exists>model. ModelConfig_ParseConfig exampleDeps (chainWithJoint RevoluteJoint) [] = Inr model \<and>
      map Frame_Name (OrdTransforms model) = [''base'', ''j1''] \<and> model_name model = ''arm'')"
proof -
  note t = C6_ParseConfig_rejects [where D = exampleDeps and modelName = "[]"]
  have a: "ModelConfig_ParseConfig exampleDeps chainWithWorldLink [] = Inl (ErrReservedWord ''link'')"
    using t [where cfg = chainWithWorldLink]
    by (simp add: chainWithWorldLink_def exampleLink_def World_def)
  have b: "ModelConfig_ParseConfig exampleDeps chainWithWorldJoint []
      = Inl (ErrReservedWord ''joint'')"
    using t [where cfg = chainWithWorldJoint]
    by (simp add: chainWithWorldJoint_def exampleLink_def exampleJoint_def World_def)
  have c: "\<exists>err. ModelConfig_ParseConfig exampleDeps (chainWithJoint ''helical'') [] = Inl err"
    using t [where cfg = "chainWithJoint ''helical''"]
    by (simp add: chainWithJoint_def exampleJoint_def RevoluteJoint_def PrismaticJoint_def)
  have d0: "buildTransforms exampleDeps chainWithNoFrames = Inr ([], [])"
    by (simp add: buildTransforms_def chainWithNoFrames_def)
  have d: "ModelConfig_ParseConfig exampleDeps chainWithNoFrames []
      = Inl (New ''need at least one end effector'')"
    using t [where cfg = chainWithNoFrames] d0 by (simp add: endEffectors_def)
  let ?tr = "[(''left'', exampleStaticFrame ''left'' (NewPoseFromPoint \<lparr>X = 0, Y = 0, Z = 100\<rparr>)),
              (''right'', exampleStaticFrame ''right'' (NewPoseFromPoint \<lparr>X = 0, Y = 0, Z = 100\<rparr>))]"
  let ?pm = "[(''left'', ''world''), (''right'', ''world'')]"
  have e0: "buildTransforms exampleDeps chainWithTwoEnds = Inr (?tr, ?pm)"
    by (simp add: buildTransforms_def chainWithTwoEnds_def exampleLink_def exampleDeps_def
        World_def)
  have e1: "card (endEffectors ?tr ?pm) = 2"
  proof -
    have "distinct (map fst ?tr)" by simp
    from length_removeParents [OF this, of ?pm, symmetric] show ?thesis
      by (simp add: removeParents_def parentOf_def exampleStaticFrame_def)
  qed
  have e: "ModelConfig_ParseConfig exampleDeps chainWithTwoEnds []
      = Inl (New ''more than one end effector not supported'')"
    using t [where cfg = chainWithTwoEnds] e0 e1 by simp
  have f: "\<exists>model. ModelConfig_ParseConfig exampleDeps (chainWithJoint RevoluteJoint) [] = Inr model \<and>
      map Frame_Name (OrdTransforms model) = [''base'', ''j1''] \<and> model_name model = ''arm''"
    by (rule parse_chainWithJoint) simp
  show ?thesis using a b c d e f by blast
qed

text \<open>
  The claim as stated fails for the declared kinds "fixed" and "continuous": with
  constructors that always succeed, a joint of either type does not resolve to a frame, and
  the chain that is parsed when its joint is revolute is rejected when the joint is fixed.
\<close>

theorem C6_fixed_joint_counterexample:
  "JointConfig_ToFrame exampleDeps (exampleJoint ''j1'' FixedJoint ''base'')
     = Inl (UnsupportedJointTypeError ''fixed'') \<and>
   JointConfig_ToFrame exampleDeps (exampleJoint ''j1'' ContinuousJoint ''base'')
     = Inl (UnsupportedJointTypeError ''continuous'') \<and>
   ModelConfig_ParseConfig exampleDeps (chainWithJoint FixedJoint) []
     = Inl (UnsupportedJointTypeError ''fixed'') \<and>
   (\<exists>model. ModelConfig_ParseConfig exampleDeps (chainWithJoint RevoluteJoint) [] = Inr model)"
proof -
  have a: "JointConfig_ToFrame exampleDeps (exampleJoint ''j1'' FixedJoint ''base'')
     = Inl (UnsupportedJointTypeError ''fixed'')"
    by (simp add: JointConfig_ToFrame_def exampleJoint_def FixedJoint_def RevoluteJoint_def
        PrismaticJoint_def)
  have b: "JointConfig_ToFrame exampleDeps (exampleJoint ''j1'' ContinuousJoint ''base'')
     = Inl (UnsupportedJointTypeError ''continuous'')"
    by (simp add: JointConfig_ToFrame_def exampleJoint_def ContinuousJoint_def RevoluteJoint_def
        PrismaticJoint_def)
  have "buildTransforms exampleDeps (chainWithJoint FixedJoint)
      = Inl (UnsupportedJointTypeError ''fixed'')"
    by (simp add: buildTransforms_def chainWithJoint_def exampleLink_def exampleJoint_def
        World_def JointConfig_ToFrame_def FixedJoint_def RevoluteJoint_def PrismaticJoint_def
        exampleDeps_def)
  then have c: "ModelConfig_ParseConfig exampleDeps (chainWithJoint FixedJoint) []
     = Inl (UnsupportedJointTypeError ''fixed'')"
    by (rule ParseConfig_build_error)
  have d: "\<exists>model. ModelConfig_ParseConfig exampleDeps (chainWithJoint RevoluteJoint) [] = Inr model"
    using parse_chainWithJoint [of RevoluteJoint] by blast
  show ?thesis using a b c d by blast
qed

section \<open>State constraints across a segment\<close>

text \<open>
  The loops of \<^verbatim>\<open>CheckStateConstraints\<close> and \<^verbatim>\<open>CheckSegmentConstraints\<close> pass exactly when
  every registered constraint accepts the input, whatever the order in which the registry
  is visited.
\<close>

lemma rangeStateConstraints_iff:
  "fst (rangeStateConstraints cs cInput) \<longleftrightarrow> (\<forall>(n, cFunc) \<in> set cs. cFunc cInput)"
  by (induction cs cInput rule: rangeStateConstraints.induct) (simp_all add: Let_def)

lemma CheckStateConstraints_iff:
  "fst (CheckStateConstraints c cInput) \<longleftrightarrow> passesAllStateConstraints c cInput"
  by (simp add: CheckStateConstraints_def passesAllStateConstraints_def rangeStateConstraints_iff)

lemma rangeSegmentConstraints_iff:
  "fst (rangeSegmentConstraints cs cInput) \<longleftrightarrow> (\<forall>(n, cFunc) \<in> set cs. cFunc cInput)"
  by (induction cs cInput rule: rangeSegmentConstraints.induct) (simp_all add: Let_def)

lemma CheckSegmentConstraints_iff:
  "fst (CheckSegmentConstraints c cInput) \<longleftrightarrow> passesAllSegmentConstraints c cInput"
  by (simp add: CheckSegmentConstraints_def passesAllSegmentConstraints_def
      rangeSegmentConstraints_iff)

lemma resolveSegment_fields:
  assumes "SegmentInput_resolveInputsToPositions ci = Inr ci'"
  shows "StartConfiguration ci' = StartConfiguration ci"
    and "EndConfiguration ci' = EndConfiguration ci"
    and "Segment_Frame ci' = Segment_Frame ci"
  using assms
  by (auto simp: SegmentInput_resolveInputsToPositions_def
      split: if_splits option.splits sum.splits)

text \<open>After a successful resolution both poses of the segment are set.\<close>

lemma resolveSegment_poses:
  assumes "SegmentInput_resolveInputsToPositions ci = Inr ci'"
  shows "\<exists>startPos endPos. StartPosition ci' = Some startPos \<and> EndPosition ci' = Some endPos"
  using assms
  by (auto simp: SegmentInput_resolveInputsToPositions_def
      split: if_splits option.splits sum.splits)

lemma resolveState_Configuration:
  "StateInput_resolveInputsToPositions s = Inr s' \<Longrightarrow> Configuration s' = Configuration s"
  by (auto simp: StateInput_resolveInputsToPositions_def split: if_splits option.splits sum.splits)

lemma interpolatedState_cong:
  assumes "StartConfiguration ci' = StartConfiguration ci"
    and "EndConfiguration ci' = EndConfiguration ci"
    and "Segment_Frame ci' = Segment_Frame ci"
  shows "interpolatedState II ci' steps i = interpolatedState II ci steps i"
  using assms by (simp add: interpolatedState_def)

lemma stepCount_resolved:
  assumes "SegmentInput_resolveInputsToPositions ci = Inr ci'"
  shows "\<exists>startPos endPos. StartPosition ci' = Some startPos \<and> EndPosition ci' = Some endPos \<and>
           stepCount PSC ci resolution = Some (PSC startPos endPos resolution)"
  using resolveSegment_poses [OF assms] assms by (auto simp: stepCount_def)

lemma stepCount_SomeD:
  assumes "stepCount PSC ci resolution = Some steps"
  shows "\<exists>ci' startPos endPos. SegmentInput_resolveInputsToPositions ci = Inr ci' \<and>
           StartPosition ci' = Some startPos \<and> EndPosition ci' = Some endPos \<and>
           steps = PSC startPos endPos resolution"
  using assms by (auto simp: stepCount_def split: sum.splits option.splits)

text \<open>
  The loop, one step at a time: past the last step it returns \<open>(True, None)\<close>; at a state
  that satisfies the constraints it goes on with that state's configuration as the last good
  one.
\<close>

lemma acrossSegmentLoop_done:
  "\<not> i \<le> steps \<Longrightarrow> acrossSegmentLoop II c ci steps i lastGood = (True, None)"
  by (subst acrossSegmentLoop.simps) simp

lemma acrossSegmentLoop_step:
  assumes "i \<le> steps" and "stateSatisfies II c ci steps i"
  shows "acrossSegmentLoop II c ci steps i lastGood =
         acrossSegmentLoop II c ci steps (i + 1)
           (Configuration (interpolatedState II ci steps i))"
proof -
  from assms(2) obtain interpC where
    r: "StateInput_resolveInputsToPositions (interpolatedState II ci steps i) = Inr interpC" and
    p: "fst (CheckStateConstraints c interpC)"
    by (auto simp: stateSatisfies_def CheckStateConstraints_iff split: sum.splits)
  show ?thesis
    by (subst acrossSegmentLoop.simps)
      (simp add: assms(1) r p resolveState_Configuration [OF r])
qed

lemma acrossSegmentLoop_violation:
  assumes "i \<le> steps" and "stateViolates II c ci steps i"
  shows "acrossSegmentLoop II c ci steps i lastGood =
         (if i = 0 then (False, None)
          else (False, Some \<lparr>StartPosition = None, EndPosition = None,
                             StartConfiguration = StartConfiguration ci,
                             EndConfiguration = lastGood, Segment_Frame = None\<rparr>))"
proof -
  from assms(2) obtain interpC where
    r: "StateInput_resolveInputsToPositions (interpolatedState II ci steps i) = Inr interpC" and
    p: "\<not> fst (CheckStateConstraints c interpC)"
    by (auto simp: stateViolates_def CheckStateConstraints_iff split: sum.splits)
  show ?thesis
    by (subst acrossSegmentLoop.simps) (simp add: assms(1) r p)
qed

lemma acrossSegmentLoop_unresolved:
  assumes "i \<le> steps"
    and "StateInput_resolveInputsToPositions (interpolatedState II ci steps i) = Inl err"
  shows "acrossSegmentLoop II c ci steps i lastGood = (False, None)"
  by (subst acrossSegmentLoop.simps) (simp add: assms)

text \<open>A state satisfies the constraints, violates them, or cannot be resolved.\<close>

lemma state_cases:
  obtains (satisfies) "stateSatisfies II c ci steps i"
  | (violates) "stateViolates II c ci steps i"
  | (unresolved) err where
      "StateInput_resolveInputsToPositions (interpolatedState II ci steps i) = Inl err"
  by (cases "StateInput_resolveInputsToPositions (interpolatedState II ci steps i)")
    (auto simp: stateSatisfies_def stateViolates_def)

lemma not_satisfies_and_violates:
  "stateViolates II c ci steps i \<Longrightarrow> \<not> stateSatisfies II c ci steps i"
  by (auto simp: stateSatisfies_def stateViolates_def split: sum.splits)

text \<open>If every state from step \<open>i\<close> on satisfies the constraints, the loop passes.\<close>

lemma acrossSegmentLoop_all:
  "(\<And>j. i \<le> j \<Longrightarrow> j \<le> steps \<Longrightarrow> stateSatisfies II c ci steps j) \<Longrightarrow>
   acrossSegmentLoop II c ci steps i lastGood = (True, None)"
proof (induction "nat (steps + 1 - i)" arbitrary: i lastGood)
  case 0
  then have "\<not> i \<le> steps" by simp
  then show ?case by (rule acrossSegmentLoop_done)
next
  case (Suc n)
  then have le: "i \<le> steps" by linarith
  have sat: "stateSatisfies II c ci steps i" using Suc.prems le by simp
  have "acrossSegmentLoop II c ci steps (i + 1) (Configuration (interpolatedState II ci steps i))
      = (True, None)"
  proof (rule Suc.hyps(1))
    show "n = nat (steps + 1 - (i + 1))" using Suc.hyps(2) by linarith
  next
    fix j assume "i + 1 \<le> j" "j \<le> steps"
    then show "stateSatisfies II c ci steps j" using Suc.prems by simp
  qed
  then show ?case by (simp add: acrossSegmentLoop_step [OF le sat])
qed

text \<open>And only then.\<close>

lemma acrossSegmentLoop_True:
  "acrossSegmentLoop II c ci steps i lastGood = (True, None) \<Longrightarrow> i \<le> j \<Longrightarrow> j \<le> steps \<Longrightarrow>
   stateSatisfies II c ci steps j"
proof (induction "nat (steps + 1 - i)" arbitrary: i lastGood)
  case 0
  then show ?case by linarith
next
  case (Suc n)
  then have le: "i \<le> steps" by linarith
  have sat: "stateSatisfies II c ci steps i"
  proof (cases rule: state_cases [of II c ci steps i])
    case satisfies
    then show ?thesis .
  next
    case violates
    from acrossSegmentLoop_violation [OF le violates, of lastGood] Suc.prems(1)
    show ?thesis by (simp split: if_splits)
  next
    case (unresolved err)
    from acrossSegmentLoop_unresolved [OF le unresolved, of c lastGood] Suc.prems(1)
    show ?thesis by simp
  qed
  show ?case
  proof (cases "j = i")
    case True
    with sat show ?thesis by simp
  next
    case False
    have "acrossSegmentLoop II c ci steps (i + 1)
            (Configuration (interpolatedState II ci steps i)) = (True, None)"
      using Suc.prems(1) by (simp add: acrossSegmentLoop_step [OF le sat])
    moreover have "n = nat (steps + 1 - (i + 1))" using Suc.hyps(2) by linarith
    moreover have "i + 1 \<le> j" using False Suc.prems(2) by simp
    ultimately show ?thesis using Suc.hyps(1) Suc.prems(3) by blast
  qed
qed

text \<open>
  If the states from step \<open>i\<close> up to step \<open>k\<close> satisfy the constraints, the loop arrives at
  step \<open>k\<close>; the last good configuration is then that of step \<open>k - 1\<close>, unless \<open>k = i\<close>.
\<close>

lemma acrossSegmentLoop_prefix:
  "i \<le> k \<Longrightarrow> k \<le> steps \<Longrightarrow> (\<And>j. i \<le> j \<Longrightarrow> j < k \<Longrightarrow> stateSatisfies II c ci steps j) \<Longrightarrow>
   acrossSegmentLoop II c ci steps i lastGood =
   acrossSegmentLoop II c ci steps k
     (if k = i then lastGood else Configuration (interpolatedState II ci steps (k - 1)))"
proof (induction "nat (k - i)" arbitrary: i lastGood)
  case 0
  then have "k = i" by simp
  then show ?case by simp
next
  case (Suc n)
  then have lt: "i < k" by linarith
  then have le: "i \<le> steps" using Suc.prems(2) by simp
  have sat: "stateSatisfies II c ci steps i" using Suc.prems(3) lt by simp
  have "acrossSegmentLoop II c ci steps (i + 1) (Configuration (interpolatedState II ci steps i))
      = acrossSegmentLoop II c ci steps k
          (if k = i + 1 then Configuration (interpolatedState II ci steps i)
           else Configuration (interpolatedState II ci steps (k - 1)))"
  proof (rule Suc.hyps(1))
    show "n = nat (k - (i + 1))" using Suc.hyps(2) by linarith
    show "i + 1 \<le> k" using lt by simp
    show "k \<le> steps" by (rule Suc.prems(2))
  next
    fix j assume "i + 1 \<le> j" "j < k"
    then show "stateSatisfies II c ci steps j" using Suc.prems(3) by simp
  qed
  moreover have "(if k = i + 1 then Configuration (interpolatedState II ci steps i)
           else Configuration (interpolatedState II ci steps (k - 1)))
      = Configuration (interpolatedState II ci steps (k - 1))"
    by auto
  ultimately show ?case using lt by (simp add: acrossSegmentLoop_step [OF le sat])
qed

text \<open>\<^verbatim>\<open>CheckStateConstraintsAcrossSegment\<close> in terms of the loop over the segment as given.\<close>

lemma loop_cong:
  assumes "StartConfiguration ci' = StartConfiguration ci"
    and "EndConfiguration ci' = EndConfiguration ci"
    and "Segment_Frame ci' = Segment_Frame ci"
  shows "acrossSegmentLoop II c ci' steps i lastGood = acrossSegmentLoop II c ci steps i lastGood"
proof (induction "nat (steps + 1 - i)" arbitrary: i lastGood)
  case 0
  then have "\<not> i \<le> steps" by simp
  then show ?case by (simp add: acrossSegmentLoop_done)
next
  case (Suc n)
  then have le: "i \<le> steps" by linarith
  have n: "n = nat (steps + 1 - (i + 1))" using Suc.hyps(2) by linarith
  note st = interpolatedState_cong [OF assms, of II steps]
  show ?case
  proof (cases rule: state_cases [of II c ci steps i])
    case satisfies
    then have "stateSatisfies II c ci' steps i" by (simp add: stateSatisfies_def st)
    from acrossSegmentLoop_step [OF le this] acrossSegmentLoop_step [OF le satisfies]
    show ?thesis by (simp add: st Suc.hyps(1) [OF n])
  next
    case violates
    then have "stateViolates II c ci' steps i" by (simp add: stateViolates_def st)
    from acrossSegmentLoop_violation [OF le this] acrossSegmentLoop_violation [OF le violates]
    show ?thesis by (simp add: assms(1))
  next
    case (unresolved err)
    then have "StateInput_resolveInputsToPositions (interpolatedState II ci' steps i) = Inl err"
      by (simp add: st)
    from acrossSegmentLoop_unresolved [OF le this] acrossSegmentLoop_unresolved [OF le unresolved]
    show ?thesis by simp
  qed
qed

lemma across_eq_loop:
  assumes "stepCount PSC ci resolution = Some steps"
  shows "CheckStateConstraintsAcrossSegment PSC II c ci resolution
           = acrossSegmentLoop II c ci steps 0 None"
proof -
  from stepCount_SomeD [OF assms] obtain ci' startPos endPos where
    r: "SegmentInput_resolveInputsToPositions ci = Inr ci'" and
    p: "StartPosition ci' = Some startPos" "EndPosition ci' = Some endPos" and
    s: "steps = PSC startPos endPos resolution"
    by blast
  show ?thesis
    by (simp add: CheckStateConstraintsAcrossSegment_def r p s [symmetric]
        loop_cong [OF resolveSegment_fields [OF r]])
qed

lemma across_unresolved:
  assumes "stepCount PSC ci resolution = None"
  shows "CheckStateConstraintsAcrossSegment PSC II c ci resolution = (False, None)"
proof (cases "SegmentInput_resolveInputsToPositions ci")
  case (Inl err)
  then show ?thesis by (simp add: CheckStateConstraintsAcrossSegment_def)
next
  case (Inr ci')
  from stepCount_resolved [OF this, of PSC resolution] assms show ?thesis by auto
qed

lemma across_True_iff:
  "CheckStateConstraintsAcrossSegment PSC II c ci resolution = (True, None)
     \<longleftrightarrow> allStatesSatisfy PSC II c ci resolution"
proof (cases "stepCount PSC ci resolution")
  case None
  then show ?thesis by (simp add: across_unresolved allStatesSatisfy_def)
next
  case (Some steps)
  have "acrossSegmentLoop II c ci steps 0 None = (True, None)
      \<longleftrightarrow> (\<forall>j. 0 \<le> j \<and> j \<le> steps \<longrightarrow> stateSatisfies II c ci steps j)"
    using acrossSegmentLoop_all [of 0 steps II c ci None]
      acrossSegmentLoop_True [of II c ci steps 0 None]
    by blast
  then show ?thesis
    by (auto simp: across_eq_loop [OF Some] allStatesSatisfy_def Some list_all_iff)
qed

lemma across_first_violation:
  assumes "stepCount PSC ci resolution = Some steps" and "0 \<le> k" and "k \<le> steps"
    and "\<And>j. 0 \<le> j \<Longrightarrow> j < k \<Longrightarrow> stateSatisfies II c ci steps j"
    and "stateViolates II c ci steps k"
  shows "CheckStateConstraintsAcrossSegment PSC II c ci resolution =
         (if k = 0 then (False, None) else (False, Some (prefixSegment II ci steps k)))"
proof -
  let ?lg = "if k = 0 then None else Configuration (interpolatedState II ci steps (k - 1))"
  have "CheckStateConstraintsAcrossSegment PSC II c ci resolution
      = acrossSegmentLoop II c ci steps 0 None"
    by (rule across_eq_loop [OF assms(1)])
  also have "\<dots> = acrossSegmentLoop II c ci steps k ?lg"
    using acrossSegmentLoop_prefix [of 0 k steps II c ci None, OF assms(2,3,4)] by simp
  also have "\<dots> = (if k = 0 then (False, None) else (False, Some (prefixSegment II ci steps k)))"
    by (simp add: acrossSegmentLoop_violation [OF assms(3,5)] prefixSegment_def)
  finally show ?thesis .
qed

lemma across_first_unresolved:
  assumes "stepCount PSC ci resolution = Some steps" and "0 \<le> k" and "k \<le> steps"
    and "\<And>j. 0 \<le> j \<Longrightarrow> j < k \<Longrightarrow> stateSatisfies II c ci steps j"
    and "StateInput_resolveInputsToPositions (interpolatedState II ci steps k) = Inl err"
  shows "CheckStateConstraintsAcrossSegment PSC II c ci resolution = (False, None)"
proof -
  let ?lg = "if k = 0 then None else Configuration (interpolatedState II ci steps (k - 1))"
  have "CheckStateConstraintsAcrossSegment PSC II c ci resolution
      = acrossSegmentLoop II c ci steps 0 None"
    by (rule across_eq_loop [OF assms(1)])
  also have "\<dots> = acrossSegmentLoop II c ci steps k ?lg"
    using acrossSegmentLoop_prefix [of 0 k steps II c ci None, OF assms(2,3,4)] by simp
  also have "\<dots> = (False, None)"
    by (rule acrossSegmentLoop_unresolved [OF assms(3,5)])
  finally show ?thesis .
qed

text \<open>The first component of the loop's result is true only in the result \<open>(True, None)\<close>.\<close>

lemma acrossSegmentLoop_fst:
  "fst (acrossSegmentLoop II c ci steps i lastGood) \<Longrightarrow>
   acrossSegmentLoop II c ci steps i lastGood = (True, None)"
proof (induction "nat (steps + 1 - i)" arbitrary: i lastGood)
  case 0
  then have "\<not> i \<le> steps" by simp
  then show ?case by (rule acrossSegmentLoop_done)
next
  case (Suc n)
  then have le: "i \<le> steps" by linarith
  have n: "n = nat (steps + 1 - (i + 1))" using Suc.hyps(2) by linarith
  show ?case
  proof (cases rule: state_cases [of II c ci steps i])
    case satisfies
    from Suc.prems Suc.hyps(1) [OF n] show ?thesis
      by (simp add: acrossSegmentLoop_step [OF le satisfies])
  next
    case violates
    from Suc.prems show ?thesis
      by (simp add: acrossSegmentLoop_violation [OF le violates] split: if_splits)
  next
    case (unresolved err)
    from Suc.prems show ?thesis
      by (simp add: acrossSegmentLoop_unresolved [OF le unresolved])
  qed
qed

lemma across_fst:
  "fst (CheckStateConstraintsAcrossSegment PSC II c ci resolution) \<longleftrightarrow>
   CheckStateConstraintsAcrossSegment PSC II c ci resolution = (True, None)"
proof (cases "stepCount PSC ci resolution")
  case None
  then show ?thesis by (simp add: across_unresolved)
next
  case (Some steps)
  show ?thesis
    unfolding across_eq_loop [OF Some] using acrossSegmentLoop_fst [of II c ci steps 0 None]
    by auto
qed


lemma stateUnresolved_iff:
  "stateUnresolved II ci steps i \<longleftrightarrow>
     (\<exists>err. StateInput_resolveInputsToPositions (interpolatedState II ci steps i) = Inl err)"
  by (simp add: stateUnresolved_def split: sum.splits)

text \<open>
  C1. Let the start and end configurations of the segment resolve to poses, and let \<open>steps\<close>
  be the step count that \<^verbatim>\<open>PathStepCount\<close> gives for them. The interpolated states are
  those of the steps 0 to \<open>steps\<close>; with at least one step, the state of step 0 is the one
  interpolated at the fraction 0, the start, and the state of the last step the one
  interpolated at the fraction 1, the end. A state satisfies all state constraints when its
  pose resolves and every registered state constraint accepts it, and fails when its pose
  resolves and some registered state constraint rejects it. Then
  \<^verbatim>\<open>CheckStateConstraintsAcrossSegment\<close> returns
  \<^item> \<open>(True, None)\<close> when every interpolated state, from step 0 to step \<open>steps\<close>, satisfies
    all state constraints;
  \<^item> \<open>False\<close> and the sub-segment from the original start configuration to the configuration
    of step \<open>k - 1\<close> (the last valid step), when the state of an intermediate or final step
    \<open>k > 0\<close> fails and the states before it satisfy the constraints;
  \<^item> \<open>(False, None)\<close> when the state of step 0, the start state, fails;
  \<^item> \<open>(False, None)\<close> also when the first state that does not satisfy the constraints is one
    whose pose cannot be resolved.
  For a segment of 0 steps the loop builds one state, with the configuration that
  \<^verbatim>\<open>InterpolateInputs\<close> returns for the fraction \<open>0 / 0\<close>, which is not a number; it is the
  state of step 0 here.
\<close>

theorem C1_across_segment:
  assumes "SegmentInput_resolveInputsToPositions ci = Inr ci'"
  shows "\<exists>steps. stepCount PSC ci resolution = Some steps \<and>
     ((\<forall>i \<in> {0..steps}. stateSatisfies II c ci steps i) \<longrightarrow>
        CheckStateConstraintsAcrossSegment PSC II c ci resolution = (True, None)) \<and>
     (\<forall>k. 0 < k \<and> k \<le> steps \<and> (\<forall>i \<in> {0..<k}. stateSatisfies II c ci steps i) \<and>
          stateViolates II c ci steps k \<longrightarrow>
        CheckStateConstraintsAcrossSegment PSC II c ci resolution
          = (False, Some (prefixSegment II ci steps k)) \<and>
        StartConfiguration (prefixSegment II ci steps k) = StartConfiguration ci \<and>
        EndConfiguration (prefixSegment II ci steps k)
          = Configuration (interpolatedState II ci steps (k - 1))) \<and>
     (0 \<le> steps \<and> stateViolates II c ci steps 0 \<longrightarrow>
        CheckStateConstraintsAcrossSegment PSC II c ci resolution = (False, None)) \<and>
     (\<forall>k. 0 \<le> k \<and> k \<le> steps \<and> (\<forall>i \<in> {0..<k}. stateSatisfies II c ci steps i) \<and>
          stateUnresolved II ci steps k \<longrightarrow>
        CheckStateConstraintsAcrossSegment PSC II c ci resolution = (False, None)) \<and>
     (0 < steps \<longrightarrow>
        Configuration (interpolatedState II ci steps 0)
          = II (StartConfiguration ci) (EndConfiguration ci) (Finite 0) \<and>
        Configuration (interpolatedState II ci steps steps)
          = II (StartConfiguration ci) (EndConfiguration ci) (Finite 1)) \<and>
     (steps = 0 \<longrightarrow>
        Configuration (interpolatedState II ci steps 0)
          = II (StartConfiguration ci) (EndConfiguration ci) NaN)"
proof -
  from stepCount_resolved [OF assms] obtain steps where
    s: "stepCount PSC ci resolution = Some steps"
    by blast
  have all: "CheckStateConstraintsAcrossSegment PSC II c ci resolution = (True, None)"
    if "\<forall>i \<in> {0..steps}. stateSatisfies II c ci steps i"
    using that by (simp add: across_True_iff allStatesSatisfy_def s list_all_iff)
  have mid: "CheckStateConstraintsAcrossSegment PSC II c ci resolution
          = (False, Some (prefixSegment II ci steps k))"
    if "0 < k" "k \<le> steps" "\<forall>i \<in> {0..<k}. stateSatisfies II c ci steps i"
      "stateViolates II c ci steps k" for k
    using across_first_violation [OF s _ that(2) _ that(4)] that(1,3) by simp
  have start: "CheckStateConstraintsAcrossSegment PSC II c ci resolution = (False, None)"
    if "0 \<le> steps" "stateViolates II c ci steps 0"
    using across_first_violation [OF s _ that(1) _ that(2)] by simp
  have unres: "CheckStateConstraintsAcrossSegment PSC II c ci resolution = (False, None)"
    if "0 \<le> k" "k \<le> steps" "\<forall>i \<in> {0..<k}. stateSatisfies II c ci steps i"
      "stateUnresolved II ci steps k" for k
  proof -
    from that(4) obtain err where
      "StateInput_resolveInputsToPositions (interpolatedState II ci steps k) = Inl err"
      by (auto simp: stateUnresolved_iff)
    from across_first_unresolved [OF s that(1,2) _ this] that(3) show ?thesis by simp
  qed
  have pre: "StartConfiguration (prefixSegment II ci steps k) = StartConfiguration ci \<and>
        EndConfiguration (prefixSegment II ci steps k)
          = Configuration (interpolatedState II ci steps (k - 1))" for k
    by (simp add: prefixSegment_def)
  have ends: "Configuration (interpolatedState II ci steps 0)
          = II (StartConfiguration ci) (EndConfiguration ci) (Finite 0) \<and>
        Configuration (interpolatedState II ci steps steps)
          = II (StartConfiguration ci) (EndConfiguration ci) (Finite 1)"
    if "0 < steps"
    using that by (simp add: interpolatedState_def float64_quotient_def)
  have none: "Configuration (interpolatedState II ci steps 0)
          = II (StartConfiguration ci) (EndConfiguration ci) NaN"
    if "steps = 0"
    using that by (simp add: interpolatedState_def float64_quotient_def)
  show ?thesis using s all mid start unres pre ends none by blast
qed

text \<open>
  C2. \<^verbatim>\<open>CheckSegmentAndStateValidity\<close> returns \<open>(True, None)\<close> if and only if every
  registered segment constraint accepts the segment and every interpolated state across the
  segment (its pose resolved) is accepted by every registered state constraint. It returns
  \<open>False\<close> with a sub-segment if and only if the segment passes all segment constraints,
  \<^verbatim>\<open>CheckStateConstraintsAcrossSegment\<close> fails with that sub-segment, and the sub-segment
  itself passes all segment constraints; in every other case it returns \<open>(False, None)\<close>. In
  particular, when the state of a step \<open>k > 0\<close> fails a state constraint and the states
  before it satisfy them all, the result is \<open>False\<close> with the longest valid prefix if that
  prefix passes all segment constraints, and \<open>(False, None)\<close> otherwise.
\<close>

theorem C2_segment_and_state_validity:
  "(CheckSegmentAndStateValidity PSC II c ci resolution = (True, None) \<longleftrightarrow>
      passesAllSegmentConstraints c ci \<and> allStatesSatisfy PSC II c ci resolution) \<and>
   (\<forall>sub. CheckSegmentAndStateValidity PSC II c ci resolution = (False, Some sub) \<longleftrightarrow>
      passesAllSegmentConstraints c ci \<and>
      CheckStateConstraintsAcrossSegment PSC II c ci resolution = (False, Some sub) \<and>
      passesAllSegmentConstraints c sub) \<and>
   (CheckSegmentAndStateValidity PSC II c ci resolution \<noteq> (True, None) \<and>
    (\<forall>sub. CheckSegmentAndStateValidity PSC II c ci resolution \<noteq> (False, Some sub)) \<longrightarrow>
      CheckSegmentAndStateValidity PSC II c ci resolution = (False, None)) \<and>
   (\<forall>steps k. stepCount PSC ci resolution = Some steps \<and> 0 < k \<and> k \<le> steps \<and>
      (\<forall>i \<in> {0..<k}. stateSatisfies II c ci steps i) \<and> stateViolates II c ci steps k \<and>
      passesAllSegmentConstraints c ci \<longrightarrow>
      CheckSegmentAndStateValidity PSC II c ci resolution =
        (if passesAllSegmentConstraints c (prefixSegment II ci steps k)
         then (False, Some (prefixSegment II ci steps k)) else (False, None)))"
proof -
  let ?across = "CheckStateConstraintsAcrossSegment PSC II c ci resolution"
  let ?both = "CheckSegmentAndStateValidity PSC II c ci resolution"
  obtain valid subSegment where a: "?across = (valid, subSegment)" by (cases ?across)
  have v: "valid \<longleftrightarrow> ?across = (True, None)"
    using across_fst [of PSC II c ci resolution] a by simp
  have both: "?both =
      (if \<not> passesAllSegmentConstraints c ci then (False, None)
       else if valid then (True, None)
       else (case subSegment of
               Some sub \<Rightarrow> if passesAllSegmentConstraints c sub then (False, Some sub)
                           else (False, None)
             | None \<Rightarrow> (False, None)))"
    by (simp add: CheckSegmentAndStateValidity_def a Let_def CheckSegmentConstraints_iff
        split: option.splits)
  have t: "?both = (True, None) \<longleftrightarrow>
      passesAllSegmentConstraints c ci \<and> allStatesSatisfy PSC II c ci resolution"
    unfolding both across_True_iff [symmetric] v [symmetric]
    by (auto split: option.splits)
  have f: "?both = (False, Some sub) \<longleftrightarrow>
      passesAllSegmentConstraints c ci \<and> ?across = (False, Some sub) \<and>
      passesAllSegmentConstraints c sub" for sub
    unfolding both a by (auto split: option.splits)
  have n: "?both \<noteq> (True, None) \<and> (\<forall>sub. ?both \<noteq> (False, Some sub)) \<longrightarrow> ?both = (False, None)"
    unfolding both by (auto split: option.splits)
  have p: "?both =
        (if passesAllSegmentConstraints c (prefixSegment II ci steps k)
         then (False, Some (prefixSegment II ci steps k)) else (False, None))"
    if "stepCount PSC ci resolution = Some steps" "0 < k" "k \<le> steps"
      "\<forall>i \<in> {0..<k}. stateSatisfies II c ci steps i" "stateViolates II c ci steps k"
      "passesAllSegmentConstraints c ci" for steps k
  proof -
    have "?across = (False, Some (prefixSegment II ci steps k))"
      using across_first_violation [OF that(1) _ that(3) _ that(5)] that(2,4) by simp
    with a have "valid = False" "subSegment = Some (prefixSegment II ci steps k)" by simp_all
    then show ?thesis unfolding both using that(6) by simp
  qed
  show ?thesis using t f n p by blast
qed





text \<open>The example segment: its poses, its step count and its three interpolated states.\<close>

lemma exampleSegment_resolved:
  "SegmentInput_resolveInputsToPositions exampleSegment =
     Inr (exampleSegment\<lparr>StartPosition := Some (NewPoseFromPoint \<lparr>X = 0, Y = 0, Z = 0\<rparr>),
                          EndPosition := Some (NewPoseFromPoint \<lparr>X = 2, Y = 4, Z = 0\<rparr>)\<rparr>)"
  by (simp add: SegmentInput_resolveInputsToPositions_def exampleSegment_def parabolaFrame_def)

lemma exampleSegment_stepCount:
  "stepCount examplePathStepCount exampleSegment resolution = Some 2"
  by (simp add: stepCount_def exampleSegment_resolved examplePathStepCount_def)

lemma exampleSegment_state:
  "StateInput_resolveInputsToPositions
     (interpolatedState exampleInterpolateInputs exampleSegment 2 i) =
   Inr \<lparr>Position = Some (NewPoseFromPoint
                           \<lparr>X = real_of_int i, Y = real_of_int i * real_of_int i, Z = 0\<rparr>),
        Configuration = Some [\<lparr>Value = real_of_int i\<rparr>], State_Frame = Some parabolaFrame\<rparr>"
  by (simp add: StateInput_resolveInputsToPositions_def interpolatedState_def
      float64_quotient_def exampleInterpolateInputs_def exampleSegment_def parabolaFrame_def)

lemma avoidHandler_check:
  "passesAllStateConstraints (avoidHandler pt)
     \<lparr>Position = Some pose, Configuration = conf, State_Frame = frame\<rparr>
     \<longleftrightarrow> Point pose \<noteq> pt"
  by (simp add: passesAllStateConstraints_def avoidHandler_def avoidPoint_def
      StateInput_resolveInputsToPositions_def)

lemma example_stateSatisfies:
  "stateSatisfies exampleInterpolateInputs (avoidHandler pt) exampleSegment 2 i \<longleftrightarrow>
     \<lparr>X = real_of_int i, Y = real_of_int i * real_of_int i, Z = 0\<rparr> \<noteq> pt"
  by (simp add: stateSatisfies_def exampleSegment_state avoidHandler_check NewPoseFromPoint_def)

lemma example_stateViolates:
  "stateViolates exampleInterpolateInputs (avoidHandler pt) exampleSegment 2 i \<longleftrightarrow>
     \<lparr>X = real_of_int i, Y = real_of_int i * real_of_int i, Z = 0\<rparr> = pt"
  by (simp add: stateViolates_def exampleSegment_state avoidHandler_check NewPoseFromPoint_def)

lemma example_prefixSegment:
  "prefixSegment exampleInterpolateInputs exampleSegment 2 k =
     \<lparr>StartPosition = None, EndPosition = None, StartConfiguration = Some [\<lparr>Value = 0\<rparr>],
      EndConfiguration = Some [\<lparr>Value = real_of_int k - 1\<rparr>], Segment_Frame = None\<rparr>"
  by (simp add: prefixSegment_def interpolatedState_def float64_quotient_def
      exampleInterpolateInputs_def exampleSegment_def)

lemma example_segment_constraints:
  "passesAllSegmentConstraints (avoidHandler pt) ci
     \<longleftrightarrow> StartConfiguration ci \<noteq> EndConfiguration ci"
  by (simp add: passesAllSegmentConstraints_def avoidHandler_def movingSegment_def)

lemma avoidBothHandler_check:
  "passesAllStateConstraints (avoidBothHandler p q)
     \<lparr>Position = Some pose, Configuration = conf, State_Frame = frame\<rparr>
     \<longleftrightarrow> Point pose \<noteq> p \<and> Point pose \<noteq> q"
  by (simp add: passesAllStateConstraints_def avoidBothHandler_def avoidPoint_def
      StateInput_resolveInputsToPositions_def)

lemma example_stateSatisfies_both:
  "stateSatisfies exampleInterpolateInputs (avoidBothHandler p q) exampleSegment 2 i \<longleftrightarrow>
     \<lparr>X = real_of_int i, Y = real_of_int i * real_of_int i, Z = 0\<rparr> \<noteq> p \<and>
     \<lparr>X = real_of_int i, Y = real_of_int i * real_of_int i, Z = 0\<rparr> \<noteq> q"
  by (simp add: stateSatisfies_def exampleSegment_state avoidBothHandler_check
      NewPoseFromPoint_def)

lemma example_stateViolates_both:
  "stateViolates exampleInterpolateInputs (avoidBothHandler p q) exampleSegment 2 i \<longleftrightarrow>
     \<lparr>X = real_of_int i, Y = real_of_int i * real_of_int i, Z = 0\<rparr> = p \<or>
     \<lparr>X = real_of_int i, Y = real_of_int i * real_of_int i, Z = 0\<rparr> = q"
  by (auto simp: stateViolates_def exampleSegment_state avoidBothHandler_check
      NewPoseFromPoint_def)

lemma example_segment_constraints_both:
  "passesAllSegmentConstraints (avoidBothHandler p q) ci
     \<longleftrightarrow> StartConfiguration ci \<noteq> EndConfiguration ci"
  by (simp add: passesAllSegmentConstraints_def avoidBothHandler_def movingSegment_def)

lemma steps_0_2: "i \<in> {0..2::int} \<longleftrightarrow> i = 0 \<or> i = 1 \<or> i = 2"
  by auto

lemma steps_below_2: "i \<in> {0..<2::int} \<longleftrightarrow> i = 0 \<or> i = 1"
  by auto

lemma steps_below_1: "i \<in> {0..<1::int} \<longleftrightarrow> i = 0"
  by auto

theorem C1_across_segment_witness:
  "CheckStateConstraintsAcrossSegment examplePathStepCount exampleInterpolateInputs
     (avoidHandler \<lparr>X = 5, Y = 5, Z = 0\<rparr>) exampleSegment 1 = (True, None) \<and>
   CheckStateConstraintsAcrossSegment examplePathStepCount exampleInterpolateInputs
     (avoidHandler \<lparr>X = 2, Y = 4, Z = 0\<rparr>) exampleSegment 1 =
     (False, Some \<lparr>StartPosition = None, EndPosition = None,
                   StartConfiguration = Some [\<lparr>Value = 0\<rparr>],
                   EndConfiguration = Some [\<lparr>Value = 1\<rparr>], Segment_Frame = None\<rparr>) \<and>
   CheckStateConstraintsAcrossSegment examplePathStepCount exampleInterpolateInputs
     (avoidHandler \<lparr>X = 0, Y = 0, Z = 0\<rparr>) exampleSegment 1 = (False, None) \<and>
   CheckStateConstraintsAcrossSegment examplePathStepCount exampleInterpolateInputs
     (avoidBothHandler \<lparr>X = 5, Y = 5, Z = 0\<rparr> \<lparr>X = 1, Y = 1, Z = 0\<rparr>) exampleSegment 1 =
     (False, Some \<lparr>StartPosition = None, EndPosition = None,
                   StartConfiguration = Some [\<lparr>Value = 0\<rparr>],
                   EndConfiguration = Some [\<lparr>Value = 0\<rparr>], Segment_Frame = None\<rparr>)"
proof -
  note c1 = C1_across_segment [OF exampleSegment_resolved, of examplePathStepCount 1
      exampleInterpolateInputs]
  have a: "CheckStateConstraintsAcrossSegment examplePathStepCount exampleInterpolateInputs
     (avoidHandler \<lparr>X = 5, Y = 5, Z = 0\<rparr>) exampleSegment 1 = (True, None)"
    using c1 [of "avoidHandler \<lparr>X = 5, Y = 5, Z = 0\<rparr>"]
    by (simp add: exampleSegment_stepCount example_stateSatisfies steps_0_2)
  have b: "CheckStateConstraintsAcrossSegment examplePathStepCount exampleInterpolateInputs
     (avoidHandler \<lparr>X = 2, Y = 4, Z = 0\<rparr>) exampleSegment 1 =
     (False, Some \<lparr>StartPosition = None, EndPosition = None,
                   StartConfiguration = Some [\<lparr>Value = 0\<rparr>],
                   EndConfiguration = Some [\<lparr>Value = 1\<rparr>], Segment_Frame = None\<rparr>)"
    using c1 [of "avoidHandler \<lparr>X = 2, Y = 4, Z = 0\<rparr>"]
    by (simp add: exampleSegment_stepCount example_stateSatisfies example_stateViolates
        example_prefixSegment steps_below_2)
  have c: "CheckStateConstraintsAcrossSegment examplePathStepCount exampleInterpolateInputs
     (avoidHandler \<lparr>X = 0, Y = 0, Z = 0\<rparr>) exampleSegment 1 = (False, None)"
    using c1 [of "avoidHandler \<lparr>X = 0, Y = 0, Z = 0\<rparr>"]
    by (simp add: exampleSegment_stepCount example_stateViolates)
  have d: "CheckStateConstraintsAcrossSegment examplePathStepCount exampleInterpolateInputs
     (avoidBothHandler \<lparr>X = 5, Y = 5, Z = 0\<rparr> \<lparr>X = 1, Y = 1, Z = 0\<rparr>) exampleSegment 1 =
     (False, Some \<lparr>StartPosition = None, EndPosition = None,
                   StartConfiguration = Some [\<lparr>Value = 0\<rparr>],
                   EndConfiguration = Some [\<lparr>Value = 0\<rparr>], Segment_Frame = None\<rparr>)"
  proof -
    let ?c = "avoidBothHandler \<lparr>X = 5, Y = 5, Z = 0\<rparr> \<lparr>X = 1, Y = 1, Z = 0\<rparr>"
    from c1 [of ?c] have
      "\<forall>k. 0 < k \<and> k \<le> 2 \<and>
          (\<forall>i \<in> {0..<k}. stateSatisfies exampleInterpolateInputs ?c exampleSegment 2 i) \<and>
          stateViolates exampleInterpolateInputs ?c exampleSegment 2 k \<longrightarrow>
        CheckStateConstraintsAcrossSegment examplePathStepCount exampleInterpolateInputs ?c
          exampleSegment 1
          = (False, Some (prefixSegment exampleInterpolateInputs exampleSegment 2 k))"
      by (simp add: exampleSegment_stepCount)
    from this [rule_format, of 1] show ?thesis
      by (simp add: example_stateSatisfies_both example_stateViolates_both
          example_prefixSegment steps_below_1)
  qed
  show ?thesis using a b c d by blast
qed

theorem C2_segment_and_state_validity_witness:
  "CheckSegmentAndStateValidity examplePathStepCount exampleInterpolateInputs
     (avoidHandler \<lparr>X = 5, Y = 5, Z = 0\<rparr>) exampleSegment 1 = (True, None) \<and>
   CheckSegmentAndStateValidity examplePathStepCount exampleInterpolateInputs
     (avoidHandler \<lparr>X = 2, Y = 4, Z = 0\<rparr>) exampleSegment 1 =
     (False, Some \<lparr>StartPosition = None, EndPosition = None,
                   StartConfiguration = Some [\<lparr>Value = 0\<rparr>],
                   EndConfiguration = Some [\<lparr>Value = 1\<rparr>], Segment_Frame = None\<rparr>) \<and>
   CheckSegmentAndStateValidity examplePathStepCount exampleInterpolateInputs
     (avoidHandler \<lparr>X = 1, Y = 1, Z = 0\<rparr>) exampleSegment 1 = (False, None) \<and>
   CheckSegmentAndStateValidity examplePathStepCount exampleInterpolateInputs
     (avoidBothHandler \<lparr>X = 5, Y = 5, Z = 0\<rparr> \<lparr>X = 2, Y = 4, Z = 0\<rparr>) exampleSegment 1 =
     (False, Some \<lparr>StartPosition = None, EndPosition = None,
                   StartConfiguration = Some [\<lparr>Value = 0\<rparr>],
                   EndConfiguration = Some [\<lparr>Value = 1\<rparr>], Segment_Frame = None\<rparr>)"
proof -
  note c2 = C2_segment_and_state_validity [of examplePathStepCount exampleInterpolateInputs _
      exampleSegment 1]
  have seg: "passesAllSegmentConstraints (avoidHandler pt) exampleSegment" for pt
    by (simp add: example_segment_constraints exampleSegment_def)
  have a: "CheckSegmentAndStateValidity examplePathStepCount exampleInterpolateInputs
     (avoidHandler \<lparr>X = 5, Y = 5, Z = 0\<rparr>) exampleSegment 1 = (True, None)"
    using c2 [of "avoidHandler \<lparr>X = 5, Y = 5, Z = 0\<rparr>"]
    by (simp add: seg allStatesSatisfy_def exampleSegment_stepCount list_all_iff
        example_stateSatisfies steps_0_2)
  have "\<forall>steps k. stepCount examplePathStepCount exampleSegment 1 = Some steps \<and> 0 < k \<and>
      k \<le> steps \<and>
      (\<forall>i \<in> {0..<k}. stateSatisfies exampleInterpolateInputs (avoidHandler pt) exampleSegment
          steps i) \<and>
      stateViolates exampleInterpolateInputs (avoidHandler pt) exampleSegment steps k \<and>
      passesAllSegmentConstraints (avoidHandler pt) exampleSegment \<longrightarrow>
      CheckSegmentAndStateValidity examplePathStepCount exampleInterpolateInputs
        (avoidHandler pt) exampleSegment 1 =
        (if passesAllSegmentConstraints (avoidHandler pt)
                   (prefixSegment exampleInterpolateInputs exampleSegment steps k)
         then (False, Some (prefixSegment exampleInterpolateInputs exampleSegment steps k))
         else (False, None))" for pt
    using c2 [of "avoidHandler pt"] by blast
  then have p: "0 < k \<Longrightarrow> k \<le> 2 \<Longrightarrow>
      (\<forall>i \<in> {0..<k}. stateSatisfies exampleInterpolateInputs (avoidHandler pt) exampleSegment
          2 i) \<Longrightarrow>
      stateViolates exampleInterpolateInputs (avoidHandler pt) exampleSegment 2 k \<Longrightarrow>
      CheckSegmentAndStateValidity examplePathStepCount exampleInterpolateInputs
        (avoidHandler pt) exampleSegment 1 =
        (if passesAllSegmentConstraints (avoidHandler pt)
                   (prefixSegment exampleInterpolateInputs exampleSegment 2 k)
         then (False, Some (prefixSegment exampleInterpolateInputs exampleSegment 2 k))
         else (False, None))" for pt k
    using exampleSegment_stepCount seg by blast
  have b: "CheckSegmentAndStateValidity examplePathStepCount exampleInterpolateInputs
     (avoidHandler \<lparr>X = 2, Y = 4, Z = 0\<rparr>) exampleSegment 1 =
     (False, Some \<lparr>StartPosition = None, EndPosition = None,
                   StartConfiguration = Some [\<lparr>Value = 0\<rparr>],
                   EndConfiguration = Some [\<lparr>Value = 1\<rparr>], Segment_Frame = None\<rparr>)"
    using p [of 2 "\<lparr>X = 2, Y = 4, Z = 0\<rparr>"]
    by (simp add: example_stateSatisfies example_stateViolates example_prefixSegment
        example_segment_constraints steps_below_2)
  have c: "CheckSegmentAndStateValidity examplePathStepCount exampleInterpolateInputs
     (avoidHandler \<lparr>X = 1, Y = 1, Z = 0\<rparr>) exampleSegment 1 = (False, None)"
    using p [of 1 "\<lparr>X = 1, Y = 1, Z = 0\<rparr>"]
    by (simp add: example_stateSatisfies example_stateViolates example_prefixSegment
        example_segment_constraints steps_below_1)
  have d: "CheckSegmentAndStateValidity examplePathStepCount exampleInterpolateInputs
     (avoidBothHandler \<lparr>X = 5, Y = 5, Z = 0\<rparr> \<lparr>X = 2, Y = 4, Z = 0\<rparr>) exampleSegment 1 =
     (False, Some \<lparr>StartPosition = None, EndPosition = None,
                   StartConfiguration = Some [\<lparr>Value = 0\<rparr>],
                   EndConfiguration = Some [\<lparr>Value = 1\<rparr>], Segment_Frame = None\<rparr>)"
  proof -
    let ?c = "avoidBothHandler \<lparr>X = 5, Y = 5, Z = 0\<rparr> \<lparr>X = 2, Y = 4, Z = 0\<rparr>"
    have "\<forall>steps k. stepCount examplePathStepCount exampleSegment 1 = Some steps \<and> 0 < k \<and>
        k \<le> steps \<and>
        (\<forall>i \<in> {0..<k}. stateSatisfies exampleInterpolateInputs ?c exampleSegment steps i) \<and>
        stateViolates exampleInterpolateInputs ?c exampleSegment steps k \<and>
        passesAllSegmentConstraints ?c exampleSegment \<longrightarrow>
        CheckSegmentAndStateValidity examplePathStepCount exampleInterpolateInputs ?c
          exampleSegment 1 =
          (if passesAllSegmentConstraints ?c
                (prefixSegment exampleInterpolateInputs exampleSegment steps k)
           then (False, Some (prefixSegment exampleInterpolateInputs exampleSegment steps k))
           else (False, None))"
      using c2 [of ?c] by blast
    moreover have "passesAllSegmentConstraints ?c exampleSegment"
      by (simp add: example_segment_constraints_both exampleSegment_def)
    ultimately have "0 < k \<Longrightarrow> k \<le> 2 \<Longrightarrow>
        (\<forall>i \<in> {0..<k}. stateSatisfies exampleInterpolateInputs ?c exampleSegment 2 i) \<Longrightarrow>
        stateViolates exampleInterpolateInputs ?c exampleSegment 2 k \<Longrightarrow>
        CheckSegmentAndStateValidity examplePathStepCount exampleInterpolateInputs ?c
          exampleSegment 1 =
          (if passesAllSegmentConstraints ?c
                (prefixSegment exampleInterpolateInputs exampleSegment 2 k)
           then (False, Some (prefixSegment exampleInterpolateInputs exampleSegment 2 k))
           else (False, None))" for k
      using exampleSegment_stepCount by blast
    from this [of 2] show ?thesis
      by (simp add: example_stateSatisfies_both example_stateViolates_both
          example_prefixSegment example_segment_constraints_both steps_below_2)
  qed
  show ?thesis using a b c d by blast
qed







section \<open>Executing a plan\<close>

text \<open>As long as the loop of \<^verbatim>\<open>execute\<close> goes on, its result is that of the rest of the loop.\<close>

lemma loopReaches_executeLoop:
  assumes "loopReaches mr ctx waypoints i st j st'"
  shows "executeLoop mr ctx plan waypoints i st = executeLoop mr ctx plan waypoints j st'"
  using assms
proof (induction rule: loopReaches.induct)
  case here
  show ?case by simp
next
  case (pass j st' st'')
  have "executeLoop mr ctx plan waypoints j st' = executeLoop mr ctx plan waypoints (j + 1) st''"
    by (subst executeLoop.simps) (simp add: pass.hyps)
  with pass.IH show ?case by simp
qed

lemma executeLoop_return:
  assumes "j < int (length waypoints)"
    and "executeIteration mr ctx waypoints j st' = Return r st''"
  shows "executeLoop mr ctx plan waypoints j st' = Returned (r, st'')"
  by (subst executeLoop.simps) (simp add: assms)

lemma executeIteration_cancelled:
  assumes "ctxErr mr ctx (world st) = Some ctxE"
    and "Stop (kinematicBase mr) (WithTimeout Background baseStopTimeout) (world st) = (stopErr, w')"
  shows "executeIteration mr ctx waypoints i st =
     Return (emptyExecuteResponse,
             case stopErr of None \<Rightarrow> None | Some se \<Rightarrow> Some (Wrap ctxE se))
            (st\<lparr>world := w'\<rparr>)"
  using assms by (simp add: executeIteration_def stop_def split: option.splits)

lemma executeIteration_fault:
  assumes "ctxErr mr ctx (world st) = None" and "0 \<le> i"
    and "GoToInputs (kinematicBase mr) ctx (waypoints ! nat i) (world st) = (Some err, w1)"
    and "Stop (kinematicBase mr) (WithTimeout Background baseStopTimeout) w1 = (stopErr, w2)"
  shows "executeIteration mr ctx waypoints i st =
     Return (emptyExecuteResponse,
             case stopErr of None \<Rightarrow> Some err | Some se \<Rightarrow> Some (Wrap err se))
            (st\<lparr>world := w2\<rparr>)"
  using assms by (simp add: executeIteration_def stop_def split: option.splits)

text \<open>
  C8. Let \<^verbatim>\<open>execute\<close> have its waypoints, and let its loop have come to the waypoint \<open>j\<close> in
  the state \<open>st'\<close>.
  \<^item> If the context is cancelled there (\<^verbatim>\<open>ctx.Err()\<close> is \<open>ctxE\<close>), the next and only command
    to the base is \<^verbatim>\<open>Stop\<close>, with the context \<^verbatim>\<open>WithTimeout(Background(), baseStopTimeout)\<close>,
    and \<^verbatim>\<open>execute\<close> returns: with the error \<^verbatim>\<open>Wrap(ctxE, stopErr)\<close> if the stop fails with
    \<open>stopErr\<close>, with no error if it succeeds.
  \<^item> If the context is not cancelled and the command \<^verbatim>\<open>GoToInputs\<close> for waypoint \<open>j\<close> fails
    with \<open>err\<close>, the next command to the base is that same \<^verbatim>\<open>Stop\<close>, and \<^verbatim>\<open>execute\<close> returns:
    with the error \<^verbatim>\<open>Wrap(err, stopErr)\<close> if the stop fails with \<open>stopErr\<close>, with \<open>err\<close> if it
    succeeds.
  The context of the stop is made from \<^verbatim>\<open>Background()\<close>, not from the context of the call,
  and its timeout \<^verbatim>\<open>baseStopTimeout\<close> is 5 seconds.
\<close>

theorem C8_stop_on_fault_or_cancel:
  assumes "GetFrameInputs mr plan (ShortName (kinematicBase mr)) = Inr waypoints"
    and "loopReaches mr ctx waypoints (sint (waypointIndex st)) st j st'"
    and "j < int (length waypoints)"
  shows "baseStopTimeout = 5 * Second \<and>
    (\<forall>ctxE stopErr w'.
       ctxErr mr ctx (world st') = Some ctxE \<and>
       Stop (kinematicBase mr) (WithTimeout Background baseStopTimeout) (world st') = (stopErr, w')
       \<longrightarrow>
       execute mr ctx plan st =
         Returned ((emptyExecuteResponse,
                    case stopErr of None \<Rightarrow> None | Some se \<Rightarrow> Some (Wrap ctxE se)),
                   st'\<lparr>world := w'\<rparr>)) \<and>
    (\<forall>err w1 stopErr w2.
       ctxErr mr ctx (world st') = None \<and> 0 \<le> j \<and>
       GoToInputs (kinematicBase mr) ctx (waypoints ! nat j) (world st') = (Some err, w1) \<and>
       Stop (kinematicBase mr) (WithTimeout Background baseStopTimeout) w1 = (stopErr, w2)
       \<longrightarrow>
       execute mr ctx plan st =
         Returned ((emptyExecuteResponse,
                    case stopErr of None \<Rightarrow> Some err | Some se \<Rightarrow> Some (Wrap err se)),
                   st'\<lparr>world := w2\<rparr>))"
proof -
  have ex: "execute mr ctx plan st = executeLoop mr ctx plan waypoints j st'"
    using loopReaches_executeLoop [OF assms(2)] by (simp add: execute_def assms(1))
  have t: "baseStopTimeout = 5 * Second"
    by (simp add: baseStopTimeout_def)
  have c: "execute mr ctx plan st =
         Returned ((emptyExecuteResponse,
                    case stopErr of None \<Rightarrow> None | Some se \<Rightarrow> Some (Wrap ctxE se)),
                   st'\<lparr>world := w'\<rparr>)"
    if "ctxErr mr ctx (world st') = Some ctxE"
      "Stop (kinematicBase mr) (WithTimeout Background baseStopTimeout) (world st') = (stopErr, w')"
    for ctxE stopErr w'
    unfolding ex
    by (rule executeLoop_return [OF assms(3) executeIteration_cancelled [OF that]])
  have f: "execute mr ctx plan st =
         Returned ((emptyExecuteResponse,
                    case stopErr of None \<Rightarrow> Some err | Some se \<Rightarrow> Some (Wrap err se)),
                   st'\<lparr>world := w2\<rparr>)"
    if "ctxErr mr ctx (world st') = None" "0 \<le> j"
      "GoToInputs (kinematicBase mr) ctx (waypoints ! nat j) (world st') = (Some err, w1)"
      "Stop (kinematicBase mr) (WithTimeout Background baseStopTimeout) w1 = (stopErr, w2)"
    for err w1 stopErr w2
    unfolding ex
    by (rule executeLoop_return [OF assms(3) executeIteration_fault [OF that]])
  show ?thesis using t c f by blast
qed

lemma newExecState_loopVar: "sint (waypointIndex (newExecState w)) = 1"
  by (simp add: newExecState_def)

lemma faultyPlan_first_command:
  "executeIteration exampleRequest (WithCancel Background) faultyPlan 1 (newExecState []) =
     Continue \<lparr>world = [''goto''], waypointIndex = 2\<rparr>"
  by (simp add: executeIteration_def exampleRequest_def exampleBase_def faultyPlan_def
      newExecState_def)

theorem C8_stop_on_fault_or_cancel_witness:
  "execute exampleRequest (WithCancel Background) faultyPlan (newExecState []) =
     Returned ((emptyExecuteResponse, Some (Wrap (New ''motor fault'') (New ''stop failed''))),
               \<lparr>world = [''goto'', ''fault'', ''stop''], waypointIndex = 2\<rparr>) \<and>
   execute exampleRequest (WithCancel Background) faultyPlan (newExecState [''cancel'']) =
     Returned ((emptyExecuteResponse, None),
               \<lparr>world = [''cancel'', ''stop''], waypointIndex = 1\<rparr>)"
proof -
  let ?ctx = "WithCancel Background"
  have wps: "GetFrameInputs exampleRequest faultyPlan (ShortName (kinematicBase exampleRequest))
      = Inr faultyPlan"
    by (simp add: exampleRequest_def)
  have "loopReaches exampleRequest ?ctx faultyPlan 1 (newExecState []) (1 + 1)
      \<lparr>world = [''goto''], waypointIndex = 2\<rparr>"
    by (rule loopReaches.pass [OF loopReaches.here _ faultyPlan_first_command])
      (simp add: faultyPlan_def)
  then have r: "loopReaches exampleRequest ?ctx faultyPlan
      (sint (waypointIndex (newExecState []))) (newExecState []) 2
      \<lparr>world = [''goto''], waypointIndex = 2\<rparr>"
    by (simp add: newExecState_loopVar)
  have a: "execute exampleRequest ?ctx faultyPlan (newExecState []) =
     Returned ((emptyExecuteResponse, Some (Wrap (New ''motor fault'') (New ''stop failed''))),
               \<lparr>world = [''goto'', ''fault'', ''stop''], waypointIndex = 2\<rparr>)"
    using C8_stop_on_fault_or_cancel [OF wps r]
    by (simp add: faultyPlan_def exampleRequest_def exampleBase_def)
  have r0: "loopReaches exampleRequest ?ctx faultyPlan
      (sint (waypointIndex (newExecState [''cancel'']))) (newExecState [''cancel''])
      (sint (waypointIndex (newExecState [''cancel'']))) (newExecState [''cancel''])"
    by (rule loopReaches.here)
  have b: "execute exampleRequest ?ctx faultyPlan (newExecState [''cancel'']) =
     Returned ((emptyExecuteResponse, None),
               \<lparr>world = [''cancel'', ''stop''], waypointIndex = 1\<rparr>)"
    using C8_stop_on_fault_or_cancel [OF wps r0]
    by (simp add: faultyPlan_def exampleRequest_def exampleBase_def newExecState_def)
  show ?thesis using a b by blast
qed

section \<open>The waypoint index\<close>

lemma sint_index:
  assumes "1 \<le> k" and "k < 2 ^ 31"
  shows "sint (word_of_int k :: 32 word) = k"
  using assms by (simp add: sint_sbintrunc' signed_take_bit_int_eq_self)

lemma executeIteration_Continue:
  assumes "executeIteration mr ctx waypoints i st = Continue st'"
  shows "ctxErr mr ctx (world st) = None \<and> 0 \<le> i \<and>
         fst (GoToInputs (kinematicBase mr) ctx (waypoints ! nat i) (world st)) = None \<and>
         waypointIndex st' = (if i < int (length waypoints) - 1 then waypointIndex st + 1
                              else waypointIndex st)"
  using assms
  by (auto simp: executeIteration_def split: option.splits prod.splits if_splits)

lemma executeIteration_Return:
  assumes "executeIteration mr ctx waypoints i st = Return r st'"
  shows "waypointIndex st' = waypointIndex st"
  using assms
  by (auto simp: executeIteration_def split: option.splits prod.splits if_splits)

lemma indexInvariant_start: "indexInvariant waypoints (startExecuting (newExecState w))"
  by (simp add: indexInvariant_def startExecuting_def newExecState_def)

lemma indexInvariant_step:
  assumes "indexInvariant waypoints s" and "executingStep mr ctx waypoints s s'"
  shows "indexInvariant waypoints s'"
  using assms(2,1)
proof (cases rule: executingStep.cases)
  case (actuate st')
  from executeIteration_Continue [OF actuate(4)] have
    idx: "waypointIndex st' = (if loopVar s < int (length waypoints) - 1
                               then waypointIndex (exec s) + 1 else waypointIndex (exec s))"
    by simp
  show ?thesis
  proof (cases "loopVar s < int (length waypoints) - 1")
    case True
    with assms(1) actuate(3) show ?thesis
      unfolding actuate(1) indexInvariant_def by (simp add: idx)
  next
    case False
    with actuate(3) have last: "int (length waypoints) = loopVar s + 1" by simp
    from assms(1) actuate(3) show ?thesis
      unfolding actuate(1) indexInvariant_def by (simp add: idx last)
  qed
next
  case (actuate_return r st')
  from executeIteration_Return [OF actuate_return(4)] assms(1) show ?thesis
    unfolding actuate_return(1) indexInvariant_def by simp
next
  case loop_exit
  with assms(1) show ?thesis by (simp add: indexInvariant_def)
next
  case (poll w')
  with assms(1) show ?thesis by (simp add: indexInvariant_def)
qed

lemma indexInvariant_reachable:
  assumes "rtranclp (executingStep mr ctx waypoints) (startExecuting (newExecState w)) s"
  shows "indexInvariant waypoints s"
  using assms
  by (induction rule: rtranclp_induct) (auto intro: indexInvariant_start indexInvariant_step)

lemma indexInvariant_sint:
  assumes "indexInvariant waypoints s" and "length waypoints < 2 ^ 31"
  shows "sint (waypointIndex (exec s)) =
           (if loopVar s < int (length waypoints) then loopVar s
            else max 1 (int (length waypoints) - 1))"
proof -
  let ?k = "if loopVar s < int (length waypoints) then loopVar s
            else max 1 (int (length waypoints) - 1)"
  have len: "int (length waypoints) < 2 ^ 31"
    using assms(2) by (simp flip: of_nat_less_iff)
  have "1 \<le> ?k" "?k < 2 ^ 31"
    using assms(1) len by (auto simp: indexInvariant_def)
  then have "sint (word_of_int ?k :: 32 word) = ?k"
    by (rule sint_index)
  with assms(1) show ?thesis by (simp add: indexInvariant_def)
qed

text \<open>One step of the Executing phase: the index stays, or a command has succeeded.\<close>

lemma index_step:
  assumes "indexInvariant waypoints s" and "length waypoints < 2 ^ 31"
    and "executingStep mr ctx waypoints s s'"
  shows "waypointIndex (exec s') = waypointIndex (exec s) \<or>
         (sint (waypointIndex (exec s')) = sint (waypointIndex (exec s)) + 1 \<and>
          commandSucceeded mr ctx waypoints s s' \<and>
          sint (waypointIndex (exec s')) \<le> finalIndex waypoints)"
proof -
  note inv' = indexInvariant_step [OF assms(1,3)]
  note v = indexInvariant_sint [OF assms(1,2)] and v' = indexInvariant_sint [OF inv' assms(2)]
  from assms(3) show ?thesis
  proof (cases rule: executingStep.cases)
    case (actuate st')
    note c = executeIteration_Continue [OF actuate(4)]
    show ?thesis
    proof (cases "loopVar s < int (length waypoints) - 1")
      case True
      have lv: "loopVar s' = loopVar s + 1" by (simp add: actuate(1))
      have "sint (waypointIndex (exec s')) = sint (waypointIndex (exec s)) + 1"
        unfolding v v' lv using True by simp
      moreover have "commandSucceeded mr ctx waypoints s s'"
        using c actuate(2,3) lv by (simp add: commandSucceeded_def)
      moreover have "sint (waypointIndex (exec s')) \<le> finalIndex waypoints"
        unfolding v' lv finalIndex_def using True by simp
      ultimately show ?thesis by blast
    next
      case False
      with c have "waypointIndex (exec s') = waypointIndex (exec s)"
        by (simp add: actuate(1))
      then show ?thesis by blast
    qed
  next
    case (actuate_return r st')
    from executeIteration_Return [OF actuate_return(4)] show ?thesis
      by (simp add: actuate_return(1))
  next
    case loop_exit
    then show ?thesis by simp
  next
    case (poll w')
    then show ?thesis by simp
  qed
qed

lemma index_monotone:
  assumes "rtranclp (executingStep mr ctx waypoints) s s'"
    and "indexInvariant waypoints s" and "length waypoints < 2 ^ 31"
  shows "indexInvariant waypoints s' \<and>
         sint (waypointIndex (exec s)) \<le> sint (waypointIndex (exec s'))"
  using assms(1)
proof (induction rule: rtranclp_induct)
  case base
  show ?case by (simp add: assms(2))
next
  case (step y z)
  from step.IH have inv: "indexInvariant waypoints y" by blast
  from index_step [OF inv assms(3) step.hyps(2)]
  have "sint (waypointIndex (exec y)) \<le> sint (waypointIndex (exec z))" by auto
  with step.IH indexInvariant_step [OF inv step.hyps(2)] show ?case by simp
qed

text \<open>
  C10. Let the plan have fewer than \<open>2\<^sup>3\<^sup>1\<close> waypoints, so that the 32-bit index does not
  wrap. The Executing phase starts with the index 1. In every state \<open>s\<close> that the phase
  reaches, for every step from \<open>s\<close> to a state \<open>s'\<close> and every state \<open>s''\<close> reached later:
  \<^item> the index is at least 1;
  \<^item> the step leaves the index as it is, or it is a step of the actuation loop in which a
    waypoint command has completed successfully, the index grows by exactly 1, and the new
    index is not past the index of the final waypoint; so a step of a poller, which is not
    such a step, does not write the index;
  \<^item> the index never decreases: it is the same or larger in \<open>s'\<close>, and in \<open>s''\<close>.
\<close>

theorem C10_waypoint_index:
  assumes "length waypoints < 2 ^ 31"
    and "rtranclp (executingStep mr ctx waypoints) (startExecuting (newExecState w)) s"
    and "executingStep mr ctx waypoints s s'"
    and "rtranclp (executingStep mr ctx waypoints) s' s''"
  shows "sint (waypointIndex (exec (startExecuting (newExecState w)))) = 1 \<and>
         1 \<le> sint (waypointIndex (exec s)) \<and>
         (waypointIndex (exec s') = waypointIndex (exec s) \<or>
          (sint (waypointIndex (exec s')) = sint (waypointIndex (exec s)) + 1 \<and>
           commandSucceeded mr ctx waypoints s s' \<and>
           sint (waypointIndex (exec s')) \<le> finalIndex waypoints)) \<and>
         sint (waypointIndex (exec s)) \<le> sint (waypointIndex (exec s')) \<and>
         sint (waypointIndex (exec s')) \<le> sint (waypointIndex (exec s''))"
proof -
  have start: "sint (waypointIndex (exec (startExecuting (newExecState w)))) = 1"
    by (simp add: startExecuting_def newExecState_def)
  have inv: "indexInvariant waypoints s"
    by (rule indexInvariant_reachable [OF assms(2)])
  have inv': "indexInvariant waypoints s'"
    by (rule indexInvariant_step [OF inv assms(3)])
  have low: "1 \<le> sint (waypointIndex (exec s))"
    using index_monotone [OF assms(2) indexInvariant_start assms(1)] start by simp
  note one = index_step [OF inv assms(1,3)]
  then have up: "sint (waypointIndex (exec s)) \<le> sint (waypointIndex (exec s'))"
    by auto
  have later: "sint (waypointIndex (exec s')) \<le> sint (waypointIndex (exec s''))"
    using index_monotone [OF assms(4) inv' assms(1)] by simp
  show ?thesis using start low one up later by blast
qed

lemma goodPlan_first_step:
  "executingStep exampleRequest (WithCancel Background) goodPlan
     (startExecuting (newExecState []))
     \<lparr>exec = \<lparr>world = [''goto''], waypointIndex = 2\<rparr>, loopVar = 2, returned = False\<rparr>"
proof -
  let ?s = "startExecuting (newExecState ([] :: string list))"
  have it: "executeIteration exampleRequest (WithCancel Background) goodPlan (loopVar ?s) (exec ?s)
      = Continue \<lparr>world = [''goto''], waypointIndex = 2\<rparr>"
    by (simp add: executeIteration_def exampleRequest_def exampleBase_def goodPlan_def
        newExecState_def startExecuting_def)
  have "executingStep exampleRequest (WithCancel Background) goodPlan ?s
      (?s\<lparr>exec := \<lparr>world = [''goto''], waypointIndex = 2\<rparr>, loopVar := loopVar ?s + 1\<rparr>)"
    by (rule executingStep.actuate [OF _ _ it])
      (simp_all add: startExecuting_def newExecState_def goodPlan_def)
  then show ?thesis by (simp add: startExecuting_def newExecState_def)
qed

theorem C10_waypoint_index_witness:
  "sint (waypointIndex (exec (startExecuting (newExecState ([] :: string list))))) = 1 \<and>
   sint (waypointIndex (exec
     \<lparr>exec = \<lparr>world = [''goto''], waypointIndex = 2\<rparr>, loopVar = 2, returned = False\<rparr>)) = 2 \<and>
   commandSucceeded exampleRequest (WithCancel Background) goodPlan
     (startExecuting (newExecState []))
     \<lparr>exec = \<lparr>world = [''goto''], waypointIndex = 2\<rparr>, loopVar = 2, returned = False\<rparr> \<and>
   sint (waypointIndex (exec
     \<lparr>exec = \<lparr>world = [''goto''], waypointIndex = 2\<rparr>, loopVar = 2, returned = False\<rparr>))
     \<le> finalIndex goodPlan"
proof -
  have len: "length goodPlan < 2 ^ 31"
    by (simp add: goodPlan_def)
  have r: "rtranclp (executingStep exampleRequest (WithCancel Background) goodPlan) s s" for s
    by simp
  from C10_waypoint_index [OF len r goodPlan_first_step r]
  show ?thesis by (simp add: startExecuting_def newExecState_def)
qed

end
